theory Spec2Isabelle
  imports Main "HOL-Library.Char_ord" "HOL-Library.List_Lexorder" "HOL-Library.Sublist"
begin

section \<open>Python values, strings and dictionaries\<close>

text \<open>
  The program is \<^verbatim>\<open>src/marcup/__main__.py\<close>. A Python \<^verbatim>\<open>str\<close> is modelled as a
  \<^typ>\<open>string\<close>, one \<^typ>\<open>char\<close> per character: the characters of the model are the
  256 code points below U+0100, with the white space, the cased letters and the
  order that Python gives them. Text with a character from U+0100 on is outside the
  model.
  An exception is a value of the type \<open>error\<close>, and a function that may raise
  returns \<open>error + 'a\<close>.
  A metadata row, one \<^verbatim>\<open>dict\<close> of \<^verbatim>\<open>csv.DictReader\<close>, is a map from column names
  to cells. The first part of the model takes rows whose cells are all strings, the
  type \<open>row\<close>. \<^verbatim>\<open>csv.DictReader\<close> fills the missing cells of a short line with
  \<^verbatim>\<open>None\<close>; the rows with such cells are the type \<open>csv_row\<close>, and the same
  functions are modelled on them further down, under names that end in \<open>_csv\<close>.

  The module defines a class \<^verbatim>\<open>MarcupRecord\<close> twice. \<^verbatim>\<open>IslandoraRecord\<close>, the class
  that \<^verbatim>\<open>main\<close> builds, is declared between the two and inherits from the first;
  the model is of \<^verbatim>\<open>IslandoraRecord\<close> and of the methods it inherits. The second
  \<^verbatim>\<open>MarcupRecord\<close> is used by nothing in the module and is not modelled.
\<close>

datatype error = IndexError | KeyError string | TypeError | AttributeError

type_synonym row = "string \<rightharpoonup> string"

definition and_then :: "error + 'a \<Rightarrow> ('a \<Rightarrow> error + 'b) \<Rightarrow> error + 'b" where
  "and_then m f = (case m of Inl e \<Rightarrow> Inl e | Inr x \<Rightarrow> f x)"

text \<open>\<^verbatim>\<open>row[key]\<close> raises \<^verbatim>\<open>KeyError\<close> on a missing key; \<^verbatim>\<open>row.get(key, default)\<close>
  does not.\<close>

definition getitem :: "row \<Rightarrow> string \<Rightarrow> error + string" where
  "getitem r k = (case r k of None \<Rightarrow> Inl (KeyError k) | Some v \<Rightarrow> Inr v)"

definition get_default :: "row \<Rightarrow> string \<Rightarrow> string \<Rightarrow> string" where
  "get_default r k d = (case r k of None \<Rightarrow> d | Some v \<Rightarrow> v)"

text \<open>\<^verbatim>\<open>metadata[0]\<close> raises \<^verbatim>\<open>IndexError\<close> on the empty list.\<close>

definition first_row :: "row list \<Rightarrow> error + row" where
  "first_row metadata = (case metadata of [] \<Rightarrow> Inl IndexError | r # _ \<Rightarrow> Inr r)"

text \<open>\<^verbatim>\<open>xs[:n]\<close> for an integer \<open>n\<close>: a negative \<open>n\<close> counts from the end.\<close>

definition slice_to :: "'a list \<Rightarrow> int \<Rightarrow> 'a list" where
  "slice_to xs n = (if 0 \<le> n then take (nat n) xs else take (nat (int (length xs) + n)) xs)"

text \<open>\<^verbatim>\<open>s.split(c)\<close> for a one-character separator: the pieces between the
  separators, empty pieces kept, so the result is never empty.\<close>

fun split_char :: "char \<Rightarrow> string \<Rightarrow> string list" where
  "split_char c [] = [[]]"
| "split_char c (x # xs) =
     (if x = c then [] # split_char c xs
      else (case split_char c xs of [] \<Rightarrow> [[x]] | p # ps \<Rightarrow> (x # p) # ps))"

text \<open>\<^verbatim>\<open>sep.join(xs)\<close>.\<close>

fun join :: "string \<Rightarrow> string list \<Rightarrow> string" where
  "join sep [] = []"
| "join sep [x] = x"
| "join sep (x # y # ys) = x @ sep @ join sep (y # ys)"

text \<open>\<^verbatim>\<open>sub in s\<close> on strings, by trying every position of \<open>s\<close>.\<close>

fun starts_with :: "string \<Rightarrow> string \<Rightarrow> bool" where
  "starts_with s [] = True"
| "starts_with [] (p # ps) = False"
| "starts_with (c # cs) (p # ps) = (c = p \<and> starts_with cs ps)"

fun contains :: "string \<Rightarrow> string \<Rightarrow> bool" where
  "contains [] sub = (sub = [])"
| "contains (c # cs) sub = (starts_with (c # cs) sub \<or> contains cs sub)"

section \<open>The term aggregator\<close>

text \<open>
  \<^verbatim>\<open>_update_term_counting_dict\<close>. A Python \<^verbatim>\<open>dict\<close> iterates in insertion order, and
  the order is what breaks ties later, so the counter is an association list: a key
  that is present keeps its place and its count goes up by one, a new key goes to the
  end with count 1.
\<close>

fun update_term_counting_dict :: "('k \<times> nat) list \<Rightarrow> 'k \<Rightarrow> ('k \<times> nat) list" where
  "update_term_counting_dict [] term = [(term, 1)]"
| "update_term_counting_dict ((k, c) # terms) term =
     (if k = term then (k, c + 1) # terms
      else (k, c) # update_term_counting_dict terms term)"

text \<open>
  \<^verbatim>\<open>sorted(terms_counter.items(), key=lambda item: item[1], reverse=True)\<close>: Python's
  sort is stable, also with \<^verbatim>\<open>reverse=True\<close>, so items of equal count keep their
  order. \<^const>\<open>sort_key\<close> is a stable insertion sort; the key is the negated count.
\<close>

definition sorted_items_desc :: "('k \<times> nat) list \<Rightarrow> ('k \<times> nat) list" where
  "sorted_items_desc items = sort_key (\<lambda>item. - int (snd item)) items"

text \<open>
  \<^verbatim>\<open>MarcupRecord._get_terms(self, *args, sep=";")\<close>, the class that \<^verbatim>\<open>IslandoraRecord\<close>
  inherits from. Every call in the program leaves \<open>sep\<close> at its default, one
  character. The outer loop runs over the columns, the inner one over the rows.
\<close>

definition get_terms_row :: "char \<Rightarrow> string \<Rightarrow> (string \<times> nat) list \<Rightarrow> row \<Rightarrow> (string \<times> nat) list" where
  "get_terms_row sep column terms_counter r =
     (let t = get_default r column [] in
      if t \<noteq> [] then
        (if sep \<in> set t then foldl update_term_counting_dict terms_counter (split_char sep t)
         else update_term_counting_dict terms_counter t)
      else terms_counter)"

definition get_terms_counter :: "row list \<Rightarrow> string list \<Rightarrow> char \<Rightarrow> (string \<times> nat) list" where
  "get_terms_counter metadata args sep =
     foldl (\<lambda>terms_counter column. foldl (get_terms_row sep column) terms_counter metadata) [] args"

definition get_terms_sep :: "row list \<Rightarrow> string list \<Rightarrow> char \<Rightarrow> string list" where
  "get_terms_sep metadata args sep = map fst (sorted_items_desc (get_terms_counter metadata args sep))"

definition get_terms :: "row list \<Rightarrow> string list \<Rightarrow> string list" where
  "get_terms metadata args = get_terms_sep metadata args (CHR '';'')"

text \<open>
  The sequence of pieces the scan meets, column by column and row by row: the
  occurrence count of a term is how often it is in this sequence, and a term is first
  encountered at its first position there.
\<close>

definition cell_terms :: "char \<Rightarrow> string \<Rightarrow> string list" where
  "cell_terms sep t = (if t = [] then [] else split_char sep t)"

definition scanned_terms :: "row list \<Rightarrow> string list \<Rightarrow> char \<Rightarrow> string list" where
  "scanned_terms metadata args sep =
     concat (map (\<lambda>column. concat (map (\<lambda>r. cell_terms sep (get_default r column [])) metadata)) args)"

definition first_index :: "'a list \<Rightarrow> 'a \<Rightarrow> nat" where
  "first_index xs x = length (takeWhile (\<lambda>y. y \<noteq> x) xs)"

text \<open>The order of the claim: a higher count first, and among equal counts the term
  met first.\<close>

definition freq_order :: "'a list \<Rightarrow> 'a \<Rightarrow> 'a \<Rightarrow> bool" where
  "freq_order scan a b =
     (count_list scan b < count_list scan a \<or>
      (count_list scan a = count_list scan b \<and> first_index scan a < first_index scan b))"

section \<open>The paired term and URI aggregator\<close>

text \<open>\<^verbatim>\<open>itertools.zip_longest(xs, ys, fillvalue=v)\<close>: the shorter side is filled up.\<close>

fun zip_longest :: "'a list \<Rightarrow> 'a list \<Rightarrow> 'a \<Rightarrow> ('a \<times> 'a) list" where
  "zip_longest [] [] v = []"
| "zip_longest (x # xs) [] v = (x, v) # zip_longest xs [] v"
| "zip_longest [] (y # ys) v = (v, y) # zip_longest [] ys v"
| "zip_longest (x # xs) (y # ys) v = (x, y) # zip_longest xs ys v"

text \<open>
  \<^verbatim>\<open>IslandoraRecord._get_terms_and_uris(self, *args)\<close>. Both cells default to one
  blank, \<^verbatim>\<open>row.get(column, " ")\<close>, where \<^verbatim>\<open>_get_terms\<close> defaults to the empty string.
\<close>

definition get_terms_and_uris_row ::
  "string \<Rightarrow> ((string \<times> string) \<times> nat) list \<Rightarrow> row \<Rightarrow> ((string \<times> string) \<times> nat) list" where
  "get_terms_and_uris_row column terms_counter r =
     (let t = get_default r column '' '';
          u = get_default r (column @ ''_valueURI'') '' '' in
      if t \<noteq> [] then
        (if CHR '';'' \<in> set t then
           foldl update_term_counting_dict terms_counter
             (zip_longest (split_char (CHR '';'') t) (split_char (CHR '';'') u) [])
         else update_term_counting_dict terms_counter (t, u))
      else terms_counter)"

definition get_terms_and_uris_counter :: "row list \<Rightarrow> string list \<Rightarrow> ((string \<times> string) \<times> nat) list" where
  "get_terms_and_uris_counter metadata args =
     foldl (\<lambda>terms_counter column. foldl (get_terms_and_uris_row column) terms_counter metadata) [] args"

definition get_terms_and_uris :: "row list \<Rightarrow> string list \<Rightarrow> (string \<times> string) list" where
  "get_terms_and_uris metadata args =
     map fst (sorted_items_desc (get_terms_and_uris_counter metadata args))"

text \<open>The pairs that one row hands to the counter for one column, and the sequence of
  all of them in scan order.\<close>

definition cell_pairs :: "string \<Rightarrow> string \<Rightarrow> (string \<times> string) list" where
  "cell_pairs t u =
     (if t = [] then []
      else if CHR '';'' \<in> set t then zip_longest (split_char (CHR '';'') t) (split_char (CHR '';'') u) []
      else [(t, u)])"

definition scanned_pairs :: "row list \<Rightarrow> string list \<Rightarrow> (string \<times> string) list" where
  "scanned_pairs metadata args =
     concat (map (\<lambda>column. concat (map (\<lambda>r. cell_pairs (get_default r column '' '')
        (get_default r (column @ ''_valueURI'') '' '')) metadata)) args)"

section \<open>Case, white space and the title-case transform\<close>

text \<open>
  The cased characters below U+0100, as \<^verbatim>\<open>str.isupper\<close>, \<^verbatim>\<open>str.islower\<close> and the
  case mappings of Python have them: the upper-case letters are \<open>A\<close> to \<open>Z\<close> and
  U+00C0 to U+00DE without the multiplication sign U+00D7; the lower-case letters are
  \<open>a\<close> to \<open>z\<close>, the ordinal indicators U+00AA and U+00BA, the micro sign U+00B5 and
  U+00DF to U+00FF without the division sign U+00F7.
\<close>

definition is_upper :: "char \<Rightarrow> bool" where
  "is_upper c =
     (let n = (of_char c :: nat) in
      (65 \<le> n \<and> n \<le> 90) \<or> (192 \<le> n \<and> n \<le> 214) \<or> (216 \<le> n \<and> n \<le> 222))"

definition is_lower :: "char \<Rightarrow> bool" where
  "is_lower c =
     (let n = (of_char c :: nat) in
      (97 \<le> n \<and> n \<le> 122) \<or> n = 170 \<or> n = 181 \<or> n = 186 \<or>
      (223 \<le> n \<and> n \<le> 246) \<or> (248 \<le> n \<and> n \<le> 255))"

definition is_cased :: "char \<Rightarrow> bool" where
  "is_cased c = (is_upper c \<or> is_lower c)"

text \<open>
  The lower-case letters whose title-case form is one character below U+0100:
  \<open>a\<close> to \<open>z\<close> and U+00E0 to U+00FE without the division sign. The ordinal indicators
  have no other case. The title-case forms of the micro sign (U+039C), of the sharp s
  (the two letters \<open>Ss\<close>) and of U+00FF (U+0178) are not characters of the model, which
  leaves these three as they are: \<open>title_exact\<close> holds of the strings without them, and
  on these strings \<open>title\<close> below is \<^verbatim>\<open>str.title\<close>.
\<close>

definition has_title :: "char \<Rightarrow> bool" where
  "has_title c =
     (let n = (of_char c :: nat) in
      (97 \<le> n \<and> n \<le> 122) \<or> (224 \<le> n \<and> n \<le> 246) \<or> (248 \<le> n \<and> n \<le> 254))"

definition title_exact :: "string \<Rightarrow> bool" where
  "title_exact s = list_all (\<lambda>c. (of_char c :: nat) \<noteq> 181 \<and> (of_char c :: nat) \<noteq> 223 \<and>
     (of_char c :: nat) \<noteq> 255) s"

text \<open>A letter below U+0100 changes case by its bit of value 32.\<close>

fun to_lower :: "char \<Rightarrow> char" where
  "to_lower (Char b0 b1 b2 b3 b4 b5 b6 b7) =
     (if is_upper (Char b0 b1 b2 b3 b4 b5 b6 b7) then Char b0 b1 b2 b3 b4 True b6 b7
      else Char b0 b1 b2 b3 b4 b5 b6 b7)"

fun to_title :: "char \<Rightarrow> char" where
  "to_title (Char b0 b1 b2 b3 b4 b5 b6 b7) =
     (if has_title (Char b0 b1 b2 b3 b4 b5 b6 b7) then Char b0 b1 b2 b3 b4 False b6 b7
      else Char b0 b1 b2 b3 b4 b5 b6 b7)"

definition lower :: "string \<Rightarrow> string" where
  "lower s = map to_lower s"

text \<open>\<^verbatim>\<open>str.isspace\<close> below U+0100, which is the white space of \<^verbatim>\<open>str.strip\<close> and
  \<^verbatim>\<open>str.split\<close>: tab to carriage return, the four separators 28 to 31, the blank,
  the next-line control U+0085 and the no-break space U+00A0.\<close>

definition is_space :: "char \<Rightarrow> bool" where
  "is_space c =
     (let n = (of_char c :: nat) in
      (9 \<le> n \<and> n \<le> 13) \<or> (28 \<le> n \<and> n \<le> 32) \<or> n = 133 \<or> n = 160)"

text \<open>\<^verbatim>\<open>s.strip()\<close>.\<close>

definition strip :: "string \<Rightarrow> string" where
  "strip s = rev (dropWhile is_space (rev (dropWhile is_space s)))"

text \<open>
  \<^verbatim>\<open>s.title()\<close>: a character that follows a cased character is lowered, any other is
  put in title case; \<open>prev\<close> says whether the character before was cased.
\<close>

fun title_from :: "bool \<Rightarrow> string \<Rightarrow> string" where
  "title_from prev [] = []"
| "title_from prev (c # cs) =
     (if prev then to_lower c else to_title c) # title_from (is_cased c) cs"

definition title :: "string \<Rightarrow> string" where
  "title s = title_from False s"

text \<open>\<^verbatim>\<open>s.split()\<close>: the maximal runs of characters that are no white space; \<open>cur\<close>
  is the run being read.\<close>

fun words_from :: "string \<Rightarrow> string \<Rightarrow> string list" where
  "words_from cur [] = (if cur = [] then [] else [cur])"
| "words_from cur (c # cs) =
     (if is_space c then (if cur = [] then words_from [] cs else cur # words_from [] cs)
      else words_from (cur @ [c]) cs)"

definition split_ws :: "string \<Rightarrow> string list" where
  "split_ws s = words_from [] s"

definition dont_capitalize :: "string list" where
  "dont_capitalize =
     [''A'', ''And'', ''As'', ''At'', ''But'', ''By'', ''Down'', ''For'', ''From'', ''If'', ''In'',
      ''Into'', ''Like'', ''Near'', ''Nor'', ''Of'', ''Off'', ''On'', ''Once'', ''Onto'', ''Or'',
      ''Over'', ''Past'', ''So'', ''Than'', ''That'', ''To'', ''Upon'', ''When'', ''With'', ''Yet'']"

text \<open>
  The body of the loop of \<^verbatim>\<open>MarcupRecord.title_case\<close> for the word at index \<open>i\<close> of
  \<open>len_capped\<close> words: of the pieces around apostrophes only the first two are kept,
  the second lowered; a word that is neither first nor last is lowered when it is in
  \<open>dont_capitalize\<close>.
\<close>

definition apostrophe :: char where
  "apostrophe = CHR 0x27"

definition fix_apostrophe :: "string \<Rightarrow> string" where
  "fix_apostrophe word =
     (let parts = split_char apostrophe word in
      if length parts > 1 then join [apostrophe] [parts ! 0, lower (parts ! 1)] else word)"

definition title_case_word :: "nat \<Rightarrow> nat \<Rightarrow> string \<Rightarrow> string" where
  "title_case_word len_capped i word0 =
     (let word = fix_apostrophe word0 in
      if 0 < i \<and> int i < int len_capped - 1 then
        (if word \<in> set dont_capitalize then lower word else word)
      else word)"

definition title_case_words :: "string \<Rightarrow> string list" where
  "title_case_words s =
     (let capped = split_ws (title s); len_capped = length capped in
      map (\<lambda>(i, word). title_case_word len_capped i word) (enumerate 0 capped))"

definition title_case :: "string \<Rightarrow> string" where
  "title_case s = join '' '' (title_case_words s)"

section \<open>Fields and the record\<close>

text \<open>
  The record class comes from the library \<^verbatim>\<open>pymarc\<close>, which is not part of the
  program: a record is a leader and a list of fields, \<^verbatim>\<open>add_field\<close> appends, and
  \<^verbatim>\<open>Field.convert_legacy_subfields\<close> pairs up a flat sequence of codes and values.
  Indicators and subfield values are Python values: the program passes strings, the
  integer 4 as the default fallback indicator, and \<^verbatim>\<open>None\<close> where the table of area
  codes has no entry.
\<close>

datatype pyval = Str string | Num int | PyNone

datatype field =
  ControlField string string
| DataField string "pyval \<times> pyval" "(pyval \<times> pyval) list"

fun tag :: "field \<Rightarrow> string" where
  "tag (ControlField t d) = t"
| "tag (DataField t i s) = t"

record marc_record =
  leader :: string
  record_fields :: "field list"

fun convert_legacy_subfields :: "pyval list \<Rightarrow> (pyval \<times> pyval) list" where
  "convert_legacy_subfields (c # v # rest) = (c, v) # convert_legacy_subfields rest"
| "convert_legacy_subfields rest = []"

text \<open>\<^verbatim>\<open>MarcupRecord.add(self, tag, indicators, subfields)\<close>, on the list of fields.\<close>

definition add :: "field list \<Rightarrow> string \<Rightarrow> pyval \<times> pyval \<Rightarrow> pyval list \<Rightarrow> field list" where
  "add fs t indicators subfields = fs @ [DataField t indicators (convert_legacy_subfields subfields)]"

definition repeat_subfields :: "pyval list \<Rightarrow> pyval \<Rightarrow> pyval list" where
  "repeat_subfields terms subfield = concat (map (\<lambda>term. [subfield, term]) terms)"

definition blank :: pyval where
  "blank = Str '' ''"

section \<open>The getters\<close>

definition get_personal_name_subjects :: "row list \<Rightarrow> (string \<times> string) list" where
  "get_personal_name_subjects metadata = get_terms_and_uris metadata [''personal_name_subject'']"

definition get_corporate_name_subjects :: "row list \<Rightarrow> (string \<times> string) list" where
  "get_corporate_name_subjects metadata = get_terms_and_uris metadata [''corporate_name_subject'']"

definition get_topic_subjects :: "row list \<Rightarrow> string list" where
  "get_topic_subjects metadata = get_terms metadata [''topical_subject_fast'', ''topical_subject_local'']"

definition get_geographic_terms :: "bool \<Rightarrow> row list \<Rightarrow> string list" where
  "get_geographic_terms avian metadata =
     (if avian then get_terms metadata [''geographic_subject_geonames'']
      else get_terms metadata [''geographic_subject_fast'', ''geographic_subject_local''])"

definition get_genre_forms :: "row list \<Rightarrow> string list" where
  "get_genre_forms metadata = get_terms metadata [''aat_genre'']"

definition get_personal_creators_contributors :: "row list \<Rightarrow> string list" where
  "get_personal_creators_contributors metadata =
     get_terms metadata [''personal_creator'', ''interviewee'', ''interviewer'', ''personal_contributor'']"

definition get_corporate_creators_contributors :: "row list \<Rightarrow> string list" where
  "get_corporate_creators_contributors metadata =
     get_terms metadata [''corporate_creator'', ''corporate_contributor'']"

definition get_original_collections :: "row list \<Rightarrow> string list" where
  "get_original_collections metadata = get_terms metadata [''archival_collection'']"

definition get_original_call_numbers :: "row list \<Rightarrow> string list" where
  "get_original_call_numbers metadata = get_terms metadata [''archival_call_number'']"

definition get_original_arks :: "row list \<Rightarrow> string list" where
  "get_original_arks metadata = get_terms metadata [''finding_aid_ark'']"

definition get_languages :: "row list \<Rightarrow> string list" where
  "get_languages metadata = get_terms metadata [''language'']"

text \<open>\<^verbatim>\<open>s.partition(sep)\<close> for a separator that is not empty: the text before the first
  occurrence, the separator, the text after it; or \<open>s\<close> and two empty strings.\<close>

fun partition_str :: "string \<Rightarrow> string \<Rightarrow> string \<times> string \<times> string" where
  "partition_str [] sep = ([], [], [])"
| "partition_str (c # cs) sep =
     (if starts_with (c # cs) sep then ([], sep, drop (length sep) (c # cs))
      else (case partition_str cs sep of
              (before, found, after) \<Rightarrow>
                if found = [] then (c # cs, [], []) else (c # before, found, after)))"

definition get_collection_descriptions :: "row list \<Rightarrow> error + (string \<times> string)" where
  "get_collection_descriptions metadata =
     and_then (first_row metadata) (\<lambda>r0.
     and_then (getitem r0 ''description'') (\<lambda>description.
       (case partition_str description ''The collection'' of
          (bio_hist, found, summary) \<Rightarrow>
            if summary \<noteq> [] then
              and_then (getitem r0 ''title'') (\<lambda>t. Inr (bio_hist, t @ '' '' @ summary))
            else Inr (bio_hist, summary))))"

fun disclaimer_loop :: "row list \<Rightarrow> error + string" where
  "disclaimer_loop [] = Inr []"
| "disclaimer_loop (r # rs) =
     and_then (getitem r ''disclaimer'') (\<lambda>d. if d \<noteq> [] then Inr d else disclaimer_loop rs)"

definition get_disclaimer :: "row list \<Rightarrow> error + string" where
  "get_disclaimer metadata =
     and_then (first_row metadata) (\<lambda>r0.
       if r0 ''disclaimer'' \<noteq> None then disclaimer_loop metadata else Inr [])"

fun object_count_loop :: "row list \<Rightarrow> nat \<Rightarrow> error + nat" where
  "object_count_loop [] count = Inr count"
| "object_count_loop (obj # objs) count =
     and_then (getitem obj ''ark'') (\<lambda>a.
       object_count_loop objs (if a \<noteq> [] then count + 1 else count))"

definition get_object_count :: "row list \<Rightarrow> error + nat" where
  "get_object_count metadata = object_count_loop (drop 1 metadata) 0"

text \<open>The list comprehension of \<^verbatim>\<open>get_years\<close>, then \<^verbatim>\<open>sorted\<close>: strings compare
  lexicographically.\<close>

fun years_loop :: "row list \<Rightarrow> error + string list" where
  "years_loop [] = Inr []"
| "years_loop (md # mds) =
     and_then (getitem md ''date_original'') (\<lambda>d.
     and_then (years_loop mds) (\<lambda>ys. Inr (if d \<noteq> [] then take 4 d # ys else ys)))"

definition get_years :: "row list \<Rightarrow> error + string list" where
  "get_years metadata = and_then (years_loop metadata) (\<lambda>ys. Inr (sort ys))"

definition get_date_range :: "string list \<Rightarrow> string" where
  "get_date_range years =
     (if length years > 1 then years ! 0 @ ''-'' @ last years @ ''.''
      else if length years = 1 then years ! 0
      else [])"

definition get_title :: "row list \<Rightarrow> error + pyval list" where
  "get_title metadata =
     and_then (first_row metadata) (\<lambda>r0.
     and_then (getitem r0 ''title'') (\<lambda>t.
       (let subfields = split_char (CHR '':'') t in
        if length subfields = 2 then
          Inr [Str ''a'', Str (subfields ! 0 @ '' : ''), Str ''b'', Str (subfields ! 1 @ '', '')]
        else Inr [Str ''a'', Str (hd subfields @ '', '')])))"

section \<open>Adding the repeatable fields\<close>

definition add_terms :: "field list \<Rightarrow> string \<Rightarrow> pyval \<times> pyval \<Rightarrow> string list \<Rightarrow> pyval list \<Rightarrow> field list" where
  "add_terms fs t indicators terms extra_subfields =
     foldl (\<lambda>fs term. if term \<noteq> [] then add fs t indicators ([Str ''a'', Str term] @ extra_subfields) else fs)
       fs terms"

text \<open>One pass of the loop of \<^verbatim>\<open>_add_terms_multiple_vocabularies\<close>, and the loop.\<close>

definition add_term_vocabulary ::
  "string \<Rightarrow> pyval \<Rightarrow> pyval \<Rightarrow> field list \<Rightarrow> string \<times> string \<Rightarrow> field list" where
  "add_term_vocabulary t first_indicator fallback_2nd_indicator fs tu =
     (case tu of (term, u) \<Rightarrow>
        if strip term \<noteq> [] then
          (if contains u ''id.loc.gov'' then
             add fs t (first_indicator, Str ''0'') [Str ''a'', Str term]
           else if contains u ''id.worldcat.org/fast'' then
             add fs t (first_indicator, Str ''7'') [Str ''a'', Str term, Str ''2'', Str ''fast'']
           else if u = [] then
             add fs t (first_indicator, Str ''7'') [Str ''a'', Str term, Str ''2'', Str ''local'']
           else add fs t (first_indicator, fallback_2nd_indicator) [Str ''a'', Str term])
        else fs)"

definition add_terms_multiple_vocabularies ::
  "field list \<Rightarrow> string \<Rightarrow> (string \<times> string) list \<Rightarrow> pyval \<Rightarrow> pyval \<Rightarrow> field list" where
  "add_terms_multiple_vocabularies fs t terms_uris first_indicator fallback_2nd_indicator =
     foldl (add_term_vocabulary t first_indicator fallback_2nd_indicator) fs terms_uris"

definition default_fallback_2nd_indicator :: pyval where
  "default_fallback_2nd_indicator = Num 4"

definition add_geographic_subjects :: "int \<Rightarrow> bool \<Rightarrow> row list \<Rightarrow> field list \<Rightarrow> field list" where
  "add_geographic_subjects mx avian metadata fs =
     add_terms fs ''651'' (blank, Str ''7'') (slice_to (get_geographic_terms avian metadata) mx)
       [Str ''2'', Str ''fast'']"

definition add_corporate_name_subjects :: "int \<Rightarrow> row list \<Rightarrow> field list \<Rightarrow> field list" where
  "add_corporate_name_subjects mx metadata fs =
     add_terms_multiple_vocabularies fs ''610'' (slice_to (get_corporate_name_subjects metadata) mx)
       (Str ''2'') default_fallback_2nd_indicator"

definition add_personal_name_subjects :: "int \<Rightarrow> row list \<Rightarrow> field list \<Rightarrow> field list" where
  "add_personal_name_subjects mx metadata fs =
     add_terms_multiple_vocabularies fs ''600'' (slice_to (get_personal_name_subjects metadata) mx)
       (Str ''1'') default_fallback_2nd_indicator"

definition add_topic_subjects :: "int \<Rightarrow> row list \<Rightarrow> field list \<Rightarrow> field list" where
  "add_topic_subjects mx metadata fs =
     add_terms fs ''650'' (blank, Str ''7'') (slice_to (get_topic_subjects metadata) mx)
       [Str ''2'', Str ''fast'']"

text \<open>\<^verbatim>\<open>add_genre_forms\<close> takes every genre: it has no \<^verbatim>\<open>[: self.max]\<close>.\<close>

definition add_genre_forms :: "row list \<Rightarrow> field list \<Rightarrow> field list" where
  "add_genre_forms metadata fs =
     add_terms fs ''655'' (blank, Str ''7'') (get_genre_forms metadata) [Str ''2'', Str ''aat'']"

definition add_corperate_creators_contributors :: "int \<Rightarrow> row list \<Rightarrow> field list \<Rightarrow> field list" where
  "add_corperate_creators_contributors mx metadata fs =
     add_terms fs ''710'' (Str ''2'', blank) (slice_to (get_corporate_creators_contributors metadata) mx) []"

definition add_personal_creators_contributors :: "int \<Rightarrow> row list \<Rightarrow> field list \<Rightarrow> field list" where
  "add_personal_creators_contributors mx metadata fs =
     add_terms fs ''700'' (Str ''1'', blank) (slice_to (get_personal_creators_contributors metadata) mx) []"

definition add_finding_aid_links :: "int \<Rightarrow> row list \<Rightarrow> field list \<Rightarrow> field list" where
  "add_finding_aid_links mx metadata fs =
     foldl (\<lambda>fs (finding_aid, ark).
         add fs ''856'' (Str ''4'', Str ''2'')
           [Str ''3'', Str (''Finding aid for '' @ title_case finding_aid), Str ''u'', Str ark])
       fs (zip (slice_to (get_original_collections metadata) mx) (slice_to (get_original_arks metadata) mx))"

text \<open>
  \<^verbatim>\<open>add_geographic_area_codes\<close>. The table \<^verbatim>\<open>marcup.area_codes.area_codes\<close> is a
  parameter, \<open>area_codes\<close>.
\<close>

definition area_codes_loop :: "(string \<rightharpoonup> string) \<Rightarrow> string list \<Rightarrow> pyval list \<times> bool" where
  "area_codes_loop area_codes geographic_terms =
     foldl (\<lambda>(geographic_area_codes, in_iowa) term.
         (case area_codes term of
            None \<Rightarrow> geographic_area_codes
          | Some code \<Rightarrow> geographic_area_codes @ [Str code],
          in_iowa \<or> contains term ''Iowa''))
       ([], False) geographic_terms"

definition add_geographic_area_codes :: "(string \<rightharpoonup> string) \<Rightarrow> string list \<Rightarrow> field list \<Rightarrow> field list" where
  "add_geographic_area_codes area_codes geographic_terms fs =
     (case area_codes_loop area_codes geographic_terms of
        (codes, in_iowa) \<Rightarrow>
          (let geographic_area_codes =
                 (if in_iowa then
                    codes @ [case area_codes ''Iowa'' of None \<Rightarrow> PyNone | Some code \<Rightarrow> Str code]
                  else codes) in
           if geographic_area_codes \<noteq> [] then
             add fs ''043'' (blank, blank) (repeat_subfields geographic_area_codes (Str ''a''))
           else fs))"

definition add_preferred_citation :: "int \<Rightarrow> string \<Rightarrow> row list \<Rightarrow> field list \<Rightarrow> field list" where
  "add_preferred_citation mx digital_collection metadata fs =
     (let original_collections = get_original_collections metadata;
          original_call_numbers = get_original_call_numbers metadata;
          originals_string =
            join '' '' (map (\<lambda>c. title_case (fst c) @ '', '' @ snd c)
              (zip (slice_to original_collections mx) (slice_to original_call_numbers mx)));
          citation_string =
            digital_collection @ '', '' @ originals_string @
            '', Special Collections and University Archives, Iowa State University Library.''
      in add fs ''524'' (blank, blank) [Str ''a'', Str citation_string])"

definition add_041_field :: "field list \<Rightarrow> string list \<Rightarrow> field list" where
  "add_041_field fs lang = add fs ''041'' (blank, blank) (repeat_subfields (map Str lang) (Str ''a''))"

text \<open>
  \<^verbatim>\<open>generate_008_field\<close> returns the data of field 008 and, on the way, adds field 041
  when there are two languages or more; \<^verbatim>\<open>lang[0]\<close> raises when there is none.
  \<open>today\<close> stands for \<^verbatim>\<open>date.today().strftime('%y%m%d')\<close>.
\<close>

definition generate_008_field :: "string \<Rightarrow> row list \<Rightarrow> field list \<Rightarrow> error + (string \<times> field list)" where
  "generate_008_field today metadata fs =
     (let lang = get_languages metadata;
          fs1 = (if length lang > 1 then add_041_field fs lang else fs) in
      case lang of
        [] \<Rightarrow> Inl IndexError
      | l # _ \<Rightarrow> Inr (today @ ''         iau     o           '' @ l @ '' d'', fs1))"

section \<open>Building the record\<close>

text \<open>\<^verbatim>\<open>f"{n}"\<close> for a count.\<close>

fun string_of_nat :: "nat \<Rightarrow> string" where
  "string_of_nat n =
     (if n < 10 then [char_of (48 + n)]
      else string_of_nat (n div 10) @ [char_of (48 + n mod 10)])"

definition original_version_notes :: "string list \<Rightarrow> string list \<Rightarrow> field list \<Rightarrow> field list" where
  "original_version_notes physical_collections physical_call_numbers fs =
     foldl (\<lambda>fs c.
         add fs ''534'' (blank, blank)
           [Str ''p'', Str ''Originals can be found in:'',
            Str ''t'', Str (title_case (fst c)),
            Str ''o'', Str (snd c),
            Str ''l'', Str ''Special Collections and University Archives, Iowa State University Library.''])
       fs (zip physical_collections physical_call_numbers)"

text \<open>The leader that \<^verbatim>\<open>pymarc.Record()\<close> starts from, and the five positions the
  constructor sets.\<close>

definition initial_leader :: string where
  "initial_leader = replicate 10 (CHR '' '') @ ''22'' @ replicate 8 (CHR '' '') @ ''4500''"

definition islandora_leader :: string where
  "islandora_leader =
     initial_leader[6 := CHR ''P'', 7 := CHR ''c'', 8 := CHR ''a'', 17 := CHR ''I'', 18 := CHR ''i'']"

text \<open>
  \<^verbatim>\<open>IslandoraRecord.__init__(self, metadata, max=5)\<close>, statement by statement. The base
  constructor \<^verbatim>\<open>MarcupRecord.__init__(self, metadata, avian=False, max=5)\<close> is called
  with the metadata only, so \<^verbatim>\<open>self.avian\<close> is \<open>False\<close>. An exception leaves no record.
\<close>

definition islandora_record_init ::
  "(string \<rightharpoonup> string) \<Rightarrow> string \<Rightarrow> row list \<Rightarrow> int \<Rightarrow> error + marc_record" where
  "islandora_record_init area_codes today metadata mx =
     (let avian = False in
      and_then (get_disclaimer metadata) (\<lambda>disclaimer.
      and_then (first_row metadata) (\<lambda>collection_metadata.
      and_then (getitem collection_metadata ''digital_collection'') (\<lambda>digital_collection.
      let physical_collections = get_original_collections metadata;
          physical_call_numbers = get_original_call_numbers metadata in
      and_then (get_years metadata) (\<lambda>years.
      let geographic_terms = get_geographic_terms avian metadata in
      and_then (get_collection_descriptions metadata) (\<lambda>(bio_hist, summary).
      and_then (generate_008_field today metadata []) (\<lambda>(data008, fs).
      let fs = fs @ [ControlField ''008'' data008];
          fs = add fs ''040'' (blank, blank)
                 [Str ''a'', Str ''IWA'', Str ''b'', Str ''eng'', Str ''e'', Str ''dacs'',
                  Str ''e'', Str ''rda'', Str ''c'', Str ''IWA''];
          fs = add_geographic_area_codes area_codes geographic_terms fs in
      and_then (get_title metadata) (\<lambda>title_subfields.
      let fs = add fs ''245'' (blank, blank) (title_subfields @ [Str ''f'', Str (get_date_range years)]);
          fs = add fs ''264'' (blank, Str ''1'')
                 [Str ''a'', Str ''Ames, Iowa :'', Str ''b'', Str ''Iowa State University Library,''] in
      and_then (get_object_count metadata) (\<lambda>object_count.
      let fs = add fs ''300'' (blank, blank)
                 [Str ''a'', Str (''1 online resource ('' @ string_of_nat object_count @ '' digital objects)'')];
          fs = add fs ''545'' (blank, blank) [Str ''a'', Str bio_hist];
          fs = add fs ''520'' (Str ''2'', blank) [Str ''a'', Str summary];
          fs = add fs ''506'' (blank, blank)
                 [Str ''a'', Str ''For copyright and re-use status, please consult the individual objects record.''];
          fs = add_preferred_citation mx digital_collection metadata fs;
          fs = original_version_notes physical_collections physical_call_numbers fs;
          fs = (if disclaimer \<noteq> [] then add fs ''500'' (blank, blank) [Str ''a'', Str disclaimer] else fs);
          fs = add_personal_name_subjects mx metadata fs;
          fs = add_corporate_name_subjects mx metadata fs;
          fs = add_topic_subjects mx metadata fs;
          fs = add_geographic_subjects mx avian metadata fs;
          fs = add_genre_forms metadata fs;
          fs = add_personal_creators_contributors mx metadata fs;
          fs = add_corperate_creators_contributors mx metadata fs;
          fs = add fs ''710'' (Str ''2'', blank)
                 [Str ''a'', Str ''Iowa State University.'', Str ''b'', Str ''Library'',
                  Str ''b'', Str ''Digital Collections.''] in
      and_then (getitem collection_metadata ''title'') (\<lambda>collection_title.
      and_then (getitem collection_metadata ''ark'') (\<lambda>collection_ark.
      let fs = add fs ''856'' (Str ''4'', Str ''0'')
                 [Str ''3'', Str collection_title, Str ''u'', Str collection_ark];
          fs = add_finding_aid_links mx metadata fs in
      Inr \<lparr>leader = islandora_leader, record_fields = fs\<rparr>)))))))))))"

text \<open>
  A call \<^verbatim>\<open>IslandoraRecord(metadata, **kwargs)\<close>: the constructor's parameters are
  \<open>metadata\<close> and \<open>max\<close>, so any other keyword raises \<^verbatim>\<open>TypeError\<close> before the body
  runs. \<^verbatim>\<open>main\<close> passes \<^verbatim>\<open>avian=True\<close> when the command line has \<^verbatim>\<open>--avian\<close>, and no
  keyword otherwise.
\<close>

datatype kwarg = KwAvian bool | KwMax int

fun is_max :: "kwarg \<Rightarrow> bool" where
  "is_max (KwMax m) = True"
| "is_max (KwAvian b) = False"

fun max_of :: "kwarg list \<Rightarrow> int" where
  "max_of [] = 5"
| "max_of (KwMax m # ks) = m"
| "max_of (KwAvian b # ks) = max_of ks"

definition IslandoraRecord ::
  "(string \<rightharpoonup> string) \<Rightarrow> string \<Rightarrow> row list \<Rightarrow> kwarg list \<Rightarrow> error + marc_record" where
  "IslandoraRecord area_codes today metadata kwargs =
     (if list_all is_max kwargs then islandora_record_init area_codes today metadata (max_of kwargs)
      else Inl TypeError)"

definition main_record :: "(string \<rightharpoonup> string) \<Rightarrow> string \<Rightarrow> row list \<Rightarrow> bool \<Rightarrow> error + marc_record" where
  "main_record area_codes today digital_collection_metadata args_avian =
     (if args_avian then IslandoraRecord area_codes today digital_collection_metadata [KwAvian True]
      else IslandoraRecord area_codes today digital_collection_metadata [])"

section \<open>Rows with cells that are None\<close>

text \<open>
  \<^verbatim>\<open>csv.DictReader\<close> gives a line with fewer fields than the header a row in which
  the missing cells are \<^verbatim>\<open>None\<close>. A cell is a string or \<^verbatim>\<open>None\<close>, and a row maps a
  column name to a cell. The functions of this section are the functions above on
  such rows: where the program would use a \<^verbatim>\<open>None\<close> cell as a string, it raises.
\<close>

type_synonym cell = "string option"

type_synonym csv_row = "string \<rightharpoonup> cell"

definition getitem_csv :: "csv_row \<Rightarrow> string \<Rightarrow> error + cell" where
  "getitem_csv r k = (case r k of None \<Rightarrow> Inl (KeyError k) | Some v \<Rightarrow> Inr v)"

definition get_default_csv :: "csv_row \<Rightarrow> string \<Rightarrow> string \<Rightarrow> cell" where
  "get_default_csv r k d = (case r k of None \<Rightarrow> Some d | Some v \<Rightarrow> v)"

text \<open>\<^verbatim>\<open>row.get(key)\<close>, with the default \<^verbatim>\<open>None\<close>.\<close>

definition get_csv :: "csv_row \<Rightarrow> string \<Rightarrow> cell" where
  "get_csv r k = (case r k of None \<Rightarrow> None | Some v \<Rightarrow> v)"

definition first_row_csv :: "csv_row list \<Rightarrow> error + csv_row" where
  "first_row_csv metadata = (case metadata of [] \<Rightarrow> Inl IndexError | r # _ \<Rightarrow> Inr r)"

text \<open>\<^verbatim>\<open>f"{x}"\<close> for a cell, and a cell as the value of a subfield.\<close>

definition format_cell :: "cell \<Rightarrow> string" where
  "format_cell c = (case c of None \<Rightarrow> ''None'' | Some s \<Rightarrow> s)"

definition pyval_of_cell :: "cell \<Rightarrow> pyval" where
  "pyval_of_cell c = (case c of None \<Rightarrow> PyNone | Some s \<Rightarrow> Str s)"

text \<open>A loop whose body may raise: the first exception ends it.\<close>

fun foldl_err :: "('a \<Rightarrow> 'b \<Rightarrow> error + 'a) \<Rightarrow> 'a \<Rightarrow> 'b list \<Rightarrow> error + 'a" where
  "foldl_err f a [] = Inr a"
| "foldl_err f a (x # xs) = and_then (f a x) (\<lambda>a'. foldl_err f a' xs)"

text \<open>
  \<^verbatim>\<open>_get_terms\<close>: a \<^verbatim>\<open>None\<close> cell is not equal to the empty string, and the test
  \<^verbatim>\<open>sep in t\<close> raises \<^verbatim>\<open>TypeError\<close> on it.
\<close>

definition get_terms_row_csv ::
  "char \<Rightarrow> string \<Rightarrow> (string \<times> nat) list \<Rightarrow> csv_row \<Rightarrow> error + (string \<times> nat) list" where
  "get_terms_row_csv sep column terms_counter r =
     (case get_default_csv r column [] of
        None \<Rightarrow> Inl TypeError
      | Some t \<Rightarrow>
          Inr (if t \<noteq> [] then
                 (if sep \<in> set t then foldl update_term_counting_dict terms_counter (split_char sep t)
                  else update_term_counting_dict terms_counter t)
               else terms_counter))"

definition get_terms_counter_csv :: "csv_row list \<Rightarrow> string list \<Rightarrow> char \<Rightarrow> error + (string \<times> nat) list" where
  "get_terms_counter_csv metadata args sep =
     foldl_err (\<lambda>terms_counter column. foldl_err (get_terms_row_csv sep column) terms_counter metadata)
       [] args"

definition get_terms_csv :: "csv_row list \<Rightarrow> string list \<Rightarrow> error + string list" where
  "get_terms_csv metadata args =
     and_then (get_terms_counter_csv metadata args (CHR '';''))
       (\<lambda>terms_counter. Inr (map fst (sorted_items_desc terms_counter)))"

text \<open>
  \<^verbatim>\<open>_get_terms_and_uris\<close>: on a term cell that is \<^verbatim>\<open>None\<close> the test \<^verbatim>\<open>";" in t\<close>
  raises \<^verbatim>\<open>TypeError\<close>; beside a term cell with a semicolon, \<^verbatim>\<open>u.split(";")\<close> raises
  \<^verbatim>\<open>AttributeError\<close> on a URI cell that is \<^verbatim>\<open>None\<close>; beside a term cell without
  one, the URI cell goes into the pair as it is.
\<close>

definition get_terms_and_uris_row_csv ::
  "string \<Rightarrow> ((string \<times> cell) \<times> nat) list \<Rightarrow> csv_row \<Rightarrow> error + ((string \<times> cell) \<times> nat) list" where
  "get_terms_and_uris_row_csv column terms_counter r =
     (let t = get_default_csv r column '' '';
          u = get_default_csv r (column @ ''_valueURI'') '' '' in
      case t of
        None \<Rightarrow> Inl TypeError
      | Some t \<Rightarrow>
          if t \<noteq> [] then
            (if CHR '';'' \<in> set t then
               (case u of
                  None \<Rightarrow> Inl AttributeError
                | Some u \<Rightarrow>
                    Inr (foldl update_term_counting_dict terms_counter
                           (map (\<lambda>(term, uri). (term, Some uri))
                              (zip_longest (split_char (CHR '';'') t) (split_char (CHR '';'') u) []))))
             else Inr (update_term_counting_dict terms_counter (t, u)))
          else Inr terms_counter)"

definition get_terms_and_uris_counter_csv ::
  "csv_row list \<Rightarrow> string list \<Rightarrow> error + ((string \<times> cell) \<times> nat) list" where
  "get_terms_and_uris_counter_csv metadata args =
     foldl_err (\<lambda>terms_counter column. foldl_err (get_terms_and_uris_row_csv column) terms_counter metadata)
       [] args"

definition get_terms_and_uris_csv :: "csv_row list \<Rightarrow> string list \<Rightarrow> error + (string \<times> cell) list" where
  "get_terms_and_uris_csv metadata args =
     and_then (get_terms_and_uris_counter_csv metadata args)
       (\<lambda>terms_counter. Inr (map fst (sorted_items_desc terms_counter)))"

definition get_personal_name_subjects_csv :: "csv_row list \<Rightarrow> error + (string \<times> cell) list" where
  "get_personal_name_subjects_csv metadata = get_terms_and_uris_csv metadata [''personal_name_subject'']"

definition get_corporate_name_subjects_csv :: "csv_row list \<Rightarrow> error + (string \<times> cell) list" where
  "get_corporate_name_subjects_csv metadata = get_terms_and_uris_csv metadata [''corporate_name_subject'']"

definition get_topic_subjects_csv :: "csv_row list \<Rightarrow> error + string list" where
  "get_topic_subjects_csv metadata =
     get_terms_csv metadata [''topical_subject_fast'', ''topical_subject_local'']"

definition get_geographic_terms_csv :: "bool \<Rightarrow> csv_row list \<Rightarrow> error + string list" where
  "get_geographic_terms_csv avian metadata =
     (if avian then get_terms_csv metadata [''geographic_subject_geonames'']
      else get_terms_csv metadata [''geographic_subject_fast'', ''geographic_subject_local''])"

definition get_genre_forms_csv :: "csv_row list \<Rightarrow> error + string list" where
  "get_genre_forms_csv metadata = get_terms_csv metadata [''aat_genre'']"

definition get_personal_creators_contributors_csv :: "csv_row list \<Rightarrow> error + string list" where
  "get_personal_creators_contributors_csv metadata =
     get_terms_csv metadata
       [''personal_creator'', ''interviewee'', ''interviewer'', ''personal_contributor'']"

definition get_corporate_creators_contributors_csv :: "csv_row list \<Rightarrow> error + string list" where
  "get_corporate_creators_contributors_csv metadata =
     get_terms_csv metadata [''corporate_creator'', ''corporate_contributor'']"

definition get_original_collections_csv :: "csv_row list \<Rightarrow> error + string list" where
  "get_original_collections_csv metadata = get_terms_csv metadata [''archival_collection'']"

definition get_original_call_numbers_csv :: "csv_row list \<Rightarrow> error + string list" where
  "get_original_call_numbers_csv metadata = get_terms_csv metadata [''archival_call_number'']"

definition get_original_arks_csv :: "csv_row list \<Rightarrow> error + string list" where
  "get_original_arks_csv metadata = get_terms_csv metadata [''finding_aid_ark'']"

definition get_languages_csv :: "csv_row list \<Rightarrow> error + string list" where
  "get_languages_csv metadata = get_terms_csv metadata [''language'']"

text \<open>\<^verbatim>\<open>get_collection_descriptions\<close>: \<^verbatim>\<open>None.partition\<close> raises \<^verbatim>\<open>AttributeError\<close>;
  a title that is \<^verbatim>\<open>None\<close> is formatted as it is.\<close>

definition get_collection_descriptions_csv :: "csv_row list \<Rightarrow> error + (string \<times> string)" where
  "get_collection_descriptions_csv metadata =
     and_then (first_row_csv metadata) (\<lambda>r0.
     and_then (getitem_csv r0 ''description'') (\<lambda>d.
       (case d of
          None \<Rightarrow> Inl AttributeError
        | Some description \<Rightarrow>
            (case partition_str description ''The collection'' of
               (bio_hist, found, summary) \<Rightarrow>
                 if summary \<noteq> [] then
                   and_then (getitem_csv r0 ''title'') (\<lambda>t. Inr (bio_hist, format_cell t @ '' '' @ summary))
                 else Inr (bio_hist, summary)))))"

text \<open>\<^verbatim>\<open>get_disclaimer\<close>: \<^verbatim>\<open>.get("disclaimer")\<close> is \<^verbatim>\<open>None\<close> for a missing column and
  for a \<^verbatim>\<open>None\<close> cell alike; in the loop a \<^verbatim>\<open>None\<close> cell is not the empty string, and
  is returned.\<close>

fun disclaimer_loop_csv :: "csv_row list \<Rightarrow> error + cell" where
  "disclaimer_loop_csv [] = Inr (Some [])"
| "disclaimer_loop_csv (r # rs) =
     and_then (getitem_csv r ''disclaimer'') (\<lambda>d. if d \<noteq> Some [] then Inr d else disclaimer_loop_csv rs)"

definition get_disclaimer_csv :: "csv_row list \<Rightarrow> error + cell" where
  "get_disclaimer_csv metadata =
     and_then (first_row_csv metadata) (\<lambda>r0.
       if get_csv r0 ''disclaimer'' \<noteq> None then disclaimer_loop_csv metadata else Inr (Some []))"

fun object_count_loop_csv :: "csv_row list \<Rightarrow> nat \<Rightarrow> error + nat" where
  "object_count_loop_csv [] count = Inr count"
| "object_count_loop_csv (obj # objs) count =
     and_then (getitem_csv obj ''ark'') (\<lambda>a.
       object_count_loop_csv objs (if a \<noteq> Some [] then count + 1 else count))"

definition get_object_count_csv :: "csv_row list \<Rightarrow> error + nat" where
  "get_object_count_csv metadata = object_count_loop_csv (drop 1 metadata) 0"

text \<open>\<^verbatim>\<open>get_years\<close>: the slice \<^verbatim>\<open>None[0:4]\<close> raises \<^verbatim>\<open>TypeError\<close>.\<close>

fun years_loop_csv :: "csv_row list \<Rightarrow> error + string list" where
  "years_loop_csv [] = Inr []"
| "years_loop_csv (md # mds) =
     and_then (getitem_csv md ''date_original'') (\<lambda>c.
       (case c of
          None \<Rightarrow> Inl TypeError
        | Some d \<Rightarrow> and_then (years_loop_csv mds) (\<lambda>ys. Inr (if d \<noteq> [] then take 4 d # ys else ys))))"

definition get_years_csv :: "csv_row list \<Rightarrow> error + string list" where
  "get_years_csv metadata = and_then (years_loop_csv metadata) (\<lambda>ys. Inr (sort ys))"

text \<open>\<^verbatim>\<open>get_title\<close>: \<^verbatim>\<open>None.split\<close> raises \<^verbatim>\<open>AttributeError\<close>.\<close>

definition get_title_csv :: "csv_row list \<Rightarrow> error + pyval list" where
  "get_title_csv metadata =
     and_then (first_row_csv metadata) (\<lambda>r0.
     and_then (getitem_csv r0 ''title'') (\<lambda>c.
       (case c of
          None \<Rightarrow> Inl AttributeError
        | Some t \<Rightarrow>
            (let subfields = split_char (CHR '':'') t in
             if length subfields = 2 then
               Inr [Str ''a'', Str (subfields ! 0 @ '' : ''), Str ''b'', Str (subfields ! 1 @ '', '')]
             else Inr [Str ''a'', Str (hd subfields @ '', '')]))))"

text \<open>
  \<^verbatim>\<open>_add_terms_multiple_vocabularies\<close>: for a term that is not blank, the first test
  \<^verbatim>\<open>"id.loc.gov" in u\<close> raises \<^verbatim>\<open>TypeError\<close> on a URI that is \<^verbatim>\<open>None\<close>; on a URI
  that is a string the pass of the loop is \<open>add_term_vocabulary\<close>.
\<close>

definition add_term_vocabulary_csv ::
  "string \<Rightarrow> pyval \<Rightarrow> pyval \<Rightarrow> field list \<Rightarrow> string \<times> cell \<Rightarrow> error + field list" where
  "add_term_vocabulary_csv t first_indicator fallback_2nd_indicator fs tu =
     (case tu of (term, c) \<Rightarrow>
        if strip term \<noteq> [] then
          (case c of
             None \<Rightarrow> Inl TypeError
           | Some u \<Rightarrow> Inr (add_term_vocabulary t first_indicator fallback_2nd_indicator fs (term, u)))
        else Inr fs)"

definition add_terms_multiple_vocabularies_csv ::
  "field list \<Rightarrow> string \<Rightarrow> (string \<times> cell) list \<Rightarrow> pyval \<Rightarrow> pyval \<Rightarrow> error + field list" where
  "add_terms_multiple_vocabularies_csv fs t terms_uris first_indicator fallback_2nd_indicator =
     foldl_err (add_term_vocabulary_csv t first_indicator fallback_2nd_indicator) fs terms_uris"

definition add_geographic_subjects_csv ::
  "int \<Rightarrow> bool \<Rightarrow> csv_row list \<Rightarrow> field list \<Rightarrow> error + field list" where
  "add_geographic_subjects_csv mx avian metadata fs =
     and_then (get_geographic_terms_csv avian metadata) (\<lambda>places.
       Inr (add_terms fs ''651'' (blank, Str ''7'') (slice_to places mx) [Str ''2'', Str ''fast'']))"

definition add_corporate_name_subjects_csv :: "int \<Rightarrow> csv_row list \<Rightarrow> field list \<Rightarrow> error + field list" where
  "add_corporate_name_subjects_csv mx metadata fs =
     and_then (get_corporate_name_subjects_csv metadata) (\<lambda>names_uris.
       add_terms_multiple_vocabularies_csv fs ''610'' (slice_to names_uris mx)
         (Str ''2'') default_fallback_2nd_indicator)"

definition add_personal_name_subjects_csv :: "int \<Rightarrow> csv_row list \<Rightarrow> field list \<Rightarrow> error + field list" where
  "add_personal_name_subjects_csv mx metadata fs =
     and_then (get_personal_name_subjects_csv metadata) (\<lambda>names_uris.
       add_terms_multiple_vocabularies_csv fs ''600'' (slice_to names_uris mx)
         (Str ''1'') default_fallback_2nd_indicator)"

definition add_topic_subjects_csv :: "int \<Rightarrow> csv_row list \<Rightarrow> field list \<Rightarrow> error + field list" where
  "add_topic_subjects_csv mx metadata fs =
     and_then (get_topic_subjects_csv metadata) (\<lambda>topics.
       Inr (add_terms fs ''650'' (blank, Str ''7'') (slice_to topics mx) [Str ''2'', Str ''fast'']))"

definition add_genre_forms_csv :: "csv_row list \<Rightarrow> field list \<Rightarrow> error + field list" where
  "add_genre_forms_csv metadata fs =
     and_then (get_genre_forms_csv metadata) (\<lambda>genres.
       Inr (add_terms fs ''655'' (blank, Str ''7'') genres [Str ''2'', Str ''aat'']))"

definition add_corperate_creators_contributors_csv ::
  "int \<Rightarrow> csv_row list \<Rightarrow> field list \<Rightarrow> error + field list" where
  "add_corperate_creators_contributors_csv mx metadata fs =
     and_then (get_corporate_creators_contributors_csv metadata) (\<lambda>names.
       Inr (add_terms fs ''710'' (Str ''2'', blank) (slice_to names mx) []))"

definition add_personal_creators_contributors_csv ::
  "int \<Rightarrow> csv_row list \<Rightarrow> field list \<Rightarrow> error + field list" where
  "add_personal_creators_contributors_csv mx metadata fs =
     and_then (get_personal_creators_contributors_csv metadata) (\<lambda>names.
       Inr (add_terms fs ''700'' (Str ''1'', blank) (slice_to names mx) []))"

definition add_finding_aid_links_csv :: "int \<Rightarrow> csv_row list \<Rightarrow> field list \<Rightarrow> error + field list" where
  "add_finding_aid_links_csv mx metadata fs =
     and_then (get_original_collections_csv metadata) (\<lambda>finding_aids.
     and_then (get_original_arks_csv metadata) (\<lambda>finding_aid_arks.
       Inr (foldl (\<lambda>fs (finding_aid, ark).
                add fs ''856'' (Str ''4'', Str ''2'')
                  [Str ''3'', Str (''Finding aid for '' @ title_case finding_aid), Str ''u'', Str ark])
              fs (zip (slice_to finding_aids mx) (slice_to finding_aid_arks mx)))))"

definition add_preferred_citation_csv ::
  "int \<Rightarrow> cell \<Rightarrow> csv_row list \<Rightarrow> field list \<Rightarrow> error + field list" where
  "add_preferred_citation_csv mx digital_collection metadata fs =
     and_then (get_original_collections_csv metadata) (\<lambda>original_collections.
     and_then (get_original_call_numbers_csv metadata) (\<lambda>original_call_numbers.
       (let originals_string =
              join '' '' (map (\<lambda>c. title_case (fst c) @ '', '' @ snd c)
                (zip (slice_to original_collections mx) (slice_to original_call_numbers mx)));
            citation_string =
              format_cell digital_collection @ '', '' @ originals_string @
              '', Special Collections and University Archives, Iowa State University Library.''
        in Inr (add fs ''524'' (blank, blank) [Str ''a'', Str citation_string]))))"

definition generate_008_field_csv ::
  "string \<Rightarrow> csv_row list \<Rightarrow> field list \<Rightarrow> error + (string \<times> field list)" where
  "generate_008_field_csv today metadata fs =
     and_then (get_languages_csv metadata) (\<lambda>lang.
       (let fs1 = (if length lang > 1 then add_041_field fs lang else fs) in
        case lang of
          [] \<Rightarrow> Inl IndexError
        | l # _ \<Rightarrow> Inr (today @ ''         iau     o           '' @ l @ '' d'', fs1)))"

text \<open>
  \<^verbatim>\<open>IslandoraRecord.__init__\<close> on such rows. A disclaimer that is \<^verbatim>\<open>None\<close> or empty
  is false in \<^verbatim>\<open>if self.disclaimer\<close>; a title or identifier that is \<^verbatim>\<open>None\<close> goes
  into field 856 as it is.
\<close>

definition islandora_record_init_csv ::
  "(string \<rightharpoonup> string) \<Rightarrow> string \<Rightarrow> csv_row list \<Rightarrow> int \<Rightarrow> error + marc_record" where
  "islandora_record_init_csv area_codes today metadata mx =
     (let avian = False in
      and_then (get_disclaimer_csv metadata) (\<lambda>disclaimer.
      and_then (first_row_csv metadata) (\<lambda>collection_metadata.
      and_then (getitem_csv collection_metadata ''digital_collection'') (\<lambda>digital_collection.
      and_then (get_original_collections_csv metadata) (\<lambda>physical_collections.
      and_then (get_original_call_numbers_csv metadata) (\<lambda>physical_call_numbers.
      and_then (get_years_csv metadata) (\<lambda>years.
      and_then (get_geographic_terms_csv avian metadata) (\<lambda>geographic_terms.
      and_then (get_collection_descriptions_csv metadata) (\<lambda>(bio_hist, summary).
      and_then (generate_008_field_csv today metadata []) (\<lambda>(data008, fs).
      let fs = fs @ [ControlField ''008'' data008];
          fs = add fs ''040'' (blank, blank)
                 [Str ''a'', Str ''IWA'', Str ''b'', Str ''eng'', Str ''e'', Str ''dacs'',
                  Str ''e'', Str ''rda'', Str ''c'', Str ''IWA''];
          fs = add_geographic_area_codes area_codes geographic_terms fs in
      and_then (get_title_csv metadata) (\<lambda>title_subfields.
      let fs = add fs ''245'' (blank, blank) (title_subfields @ [Str ''f'', Str (get_date_range years)]);
          fs = add fs ''264'' (blank, Str ''1'')
                 [Str ''a'', Str ''Ames, Iowa :'', Str ''b'', Str ''Iowa State University Library,''] in
      and_then (get_object_count_csv metadata) (\<lambda>object_count.
      let fs = add fs ''300'' (blank, blank)
                 [Str ''a'', Str (''1 online resource ('' @ string_of_nat object_count @ '' digital objects)'')];
          fs = add fs ''545'' (blank, blank) [Str ''a'', Str bio_hist];
          fs = add fs ''520'' (Str ''2'', blank) [Str ''a'', Str summary];
          fs = add fs ''506'' (blank, blank)
                 [Str ''a'', Str ''For copyright and re-use status, please consult the individual objects record.''] in
      and_then (add_preferred_citation_csv mx digital_collection metadata fs) (\<lambda>fs.
      let fs = original_version_notes physical_collections physical_call_numbers fs;
          fs = (case disclaimer of
                  None \<Rightarrow> fs
                | Some d \<Rightarrow> if d \<noteq> [] then add fs ''500'' (blank, blank) [Str ''a'', Str d] else fs) in
      and_then (add_personal_name_subjects_csv mx metadata fs) (\<lambda>fs.
      and_then (add_corporate_name_subjects_csv mx metadata fs) (\<lambda>fs.
      and_then (add_topic_subjects_csv mx metadata fs) (\<lambda>fs.
      and_then (add_geographic_subjects_csv mx avian metadata fs) (\<lambda>fs.
      and_then (add_genre_forms_csv metadata fs) (\<lambda>fs.
      and_then (add_personal_creators_contributors_csv mx metadata fs) (\<lambda>fs.
      and_then (add_corperate_creators_contributors_csv mx metadata fs) (\<lambda>fs.
      let fs = add fs ''710'' (Str ''2'', blank)
                 [Str ''a'', Str ''Iowa State University.'', Str ''b'', Str ''Library'',
                  Str ''b'', Str ''Digital Collections.''] in
      and_then (getitem_csv collection_metadata ''title'') (\<lambda>collection_title.
      and_then (getitem_csv collection_metadata ''ark'') (\<lambda>collection_ark.
      let fs = add fs ''856'' (Str ''4'', Str ''0'')
                 [Str ''3'', pyval_of_cell collection_title, Str ''u'', pyval_of_cell collection_ark] in
      and_then (add_finding_aid_links_csv mx metadata fs) (\<lambda>fs.
      Inr \<lparr>leader = islandora_leader, record_fields = fs\<rparr>)))))))))))))))))))))))"

section \<open>Notions used to state the properties\<close>

text \<open>
  The entry that the spec gives to a pair of a term and its URI, in the words of the
  spec: nothing for a term that is empty after trimming; otherwise one field, whose
  second indicator and vocabulary-source subfield follow from the first case that
  applies to the URI.
\<close>

definition classified_entry :: "string \<Rightarrow> pyval \<Rightarrow> pyval \<Rightarrow> string \<times> string \<Rightarrow> field list" where
  "classified_entry t first_indicator fallback tu =
     (case tu of (term, uri) \<Rightarrow>
        if list_all is_space term then []
        else if contains uri ''id.loc.gov'' then
          [DataField t (first_indicator, Str ''0'') [(Str ''a'', Str term)]]
        else if contains uri ''id.worldcat.org/fast'' then
          [DataField t (first_indicator, Str ''7'') [(Str ''a'', Str term), (Str ''2'', Str ''fast'')]]
        else if uri = [] then
          [DataField t (first_indicator, Str ''7'') [(Str ''a'', Str term), (Str ''2'', Str ''local'')]]
        else [DataField t (first_indicator, fallback) [(Str ''a'', Str term)]])"

text \<open>
  The word with the text after its apostrophe in lower case, in the words of the
  spec: everything up to the first apostrophe stays, the rest is lowered.
\<close>

definition lower_after_apostrophe :: "string \<Rightarrow> string" where
  "lower_after_apostrophe w =
     takeWhile (\<lambda>c. c \<noteq> apostrophe) w @ lower (dropWhile (\<lambda>c. c \<noteq> apostrophe) w)"

text \<open>The first four characters of every original-date cell that is not empty, in
  row order.\<close>

definition years_of :: "row list \<Rightarrow> string list" where
  "years_of metadata =
     map (take 4) (filter (\<lambda>d. d \<noteq> []) (map (\<lambda>r. get_default r ''date_original'' []) metadata))"

text \<open>
  The inputs on which the constructor returns a record. The scan for the disclaimer
  reads the column of every row up to the first cell that is not empty, and a row
  without the column stops it with an exception.
\<close>

fun disclaimer_scan_ok :: "row list \<Rightarrow> bool" where
  "disclaimer_scan_ok [] = True"
| "disclaimer_scan_ok (r # rs) =
     (case r ''disclaimer'' of None \<Rightarrow> False | Some d \<Rightarrow> d \<noteq> [] \<or> disclaimer_scan_ok rs)"

definition build_ok :: "row list \<Rightarrow> bool" where
  "build_ok metadata =
     (case metadata of
        [] \<Rightarrow> False
      | r0 # rest \<Rightarrow>
          r0 ''title'' \<noteq> None \<and> r0 ''digital_collection'' \<noteq> None \<and>
          r0 ''ark'' \<noteq> None \<and> r0 ''description'' \<noteq> None \<and>
          list_all (\<lambda>r. r ''date_original'' \<noteq> None) metadata \<and>
          list_all (\<lambda>r. r ''ark'' \<noteq> None) rest \<and>
          (r0 ''disclaimer'' = None \<or> disclaimer_scan_ok metadata) \<and>
          list_ex (\<lambda>r. get_default r ''language'' [] \<noteq> []) metadata)"

text \<open>
  A row of strings as a row of cells, and the string cells of a row of cells.
\<close>

definition lift_row :: "row \<Rightarrow> csv_row" where
  "lift_row r = (\<lambda>k. map_option Some (r k))"

definition strings_of :: "csv_row \<Rightarrow> row" where
  "strings_of r = (\<lambda>k. case r k of Some (Some s) \<Rightarrow> Some s | _ \<Rightarrow> None)"

text \<open>
  The cells on which the paired aggregator raises: a term cell that is \<^verbatim>\<open>None\<close>, or
  a URI cell that is \<^verbatim>\<open>None\<close> beside a term cell with a semicolon.
\<close>

definition bad_pair_cells :: "string \<Rightarrow> csv_row \<Rightarrow> bool" where
  "bad_pair_cells column r =
     (case get_default_csv r column '' '' of
        None \<Rightarrow> True
      | Some t \<Rightarrow> CHR '';'' \<in> set t \<and> get_default_csv r (column @ ''_valueURI'') '' '' = None)"

text \<open>
  The inputs on which the constructor returns a record, for rows of cells. The
  columns of \<open>plain_columns\<close> are those that the plain aggregator scans while the
  record is built. A column of name subjects is in order when the paired aggregator
  does not raise on it and none of the first \<open>max\<close> pairs has a term that is not blank
  with a URI that is \<^verbatim>\<open>None\<close>.
\<close>

fun is_str :: "cell option \<Rightarrow> bool" where
  "is_str (Some (Some s)) = True"
| "is_str c = False"

fun disclaimer_scan_ok_csv :: "csv_row list \<Rightarrow> bool" where
  "disclaimer_scan_ok_csv [] = True"
| "disclaimer_scan_ok_csv (r # rs) =
     (case r ''disclaimer'' of
        None \<Rightarrow> False
      | Some None \<Rightarrow> True
      | Some (Some d) \<Rightarrow> d \<noteq> [] \<or> disclaimer_scan_ok_csv rs)"

definition plain_columns :: "string list" where
  "plain_columns =
     [''archival_collection'', ''archival_call_number'', ''geographic_subject_fast'',
      ''geographic_subject_local'', ''language'', ''topical_subject_fast'', ''topical_subject_local'',
      ''aat_genre'', ''personal_creator'', ''interviewee'', ''interviewer'', ''personal_contributor'',
      ''corporate_creator'', ''corporate_contributor'', ''finding_aid_ark'']"

definition name_subjects_ok :: "int \<Rightarrow> csv_row list \<Rightarrow> string \<Rightarrow> bool" where
  "name_subjects_ok mx metadata column =
     (\<not> list_ex (bad_pair_cells column) metadata \<and>
      (case get_terms_and_uris_csv metadata [column] of
         Inl e \<Rightarrow> False
       | Inr pairs \<Rightarrow> list_all (\<lambda>p. strip (fst p) = [] \<or> snd p \<noteq> None) (slice_to pairs mx)))"

definition build_ok_csv :: "int \<Rightarrow> csv_row list \<Rightarrow> bool" where
  "build_ok_csv mx metadata =
     (case metadata of
        [] \<Rightarrow> False
      | r0 # rest \<Rightarrow>
          is_str (r0 ''title'') \<and> r0 ''digital_collection'' \<noteq> None \<and>
          r0 ''ark'' \<noteq> None \<and> is_str (r0 ''description'') \<and>
          list_all (\<lambda>r. is_str (r ''date_original'')) metadata \<and>
          list_all (\<lambda>r. r ''ark'' \<noteq> None) rest \<and>
          (\<not> is_str (r0 ''disclaimer'') \<or> disclaimer_scan_ok_csv metadata) \<and>
          list_all (\<lambda>column. list_all (\<lambda>r. r column \<noteq> Some None) metadata) plain_columns \<and>
          list_ex (\<lambda>r. is_str (r ''language'') \<and> r ''language'' \<noteq> Some (Some [])) metadata \<and>
          name_subjects_ok mx metadata ''personal_name_subject'' \<and>
          name_subjects_ok mx metadata ''corporate_name_subject'')"

text \<open>A column that is missing or empty in every row.\<close>

definition column_empty :: "csv_row list \<Rightarrow> string \<Rightarrow> bool" where
  "column_empty metadata column =
     list_all (\<lambda>r. r column = None \<or> r column = Some (Some [])) metadata"

text \<open>Sample rows: a row with the four collection-level columns only, and a row that
  also has a date and two languages.\<close>

definition collection_row :: row where
  "collection_row =
     [''title'' \<mapsto> ''Farm Letters: 1950 to 1962'',
      ''digital_collection'' \<mapsto> ''Farm Letters Digital Collection'',
      ''ark'' \<mapsto> ''ark:/87292/w9000'',
      ''description'' \<mapsto> ''Letters of a farm family. The collection has letters and diaries.'']"

definition sample_row :: row where
  "sample_row = collection_row(''date_original'' \<mapsto> ''1950-01-02'', ''language'' \<mapsto> ''eng;fre'')"

text \<open>A row with six genres, six topics and six physical collections.\<close>

definition six_terms_row :: row where
  "six_terms_row =
     sample_row(''aat_genre'' \<mapsto> ''letters;diaries;maps;posters;ledgers;scrapbooks'',
                ''topical_subject_fast'' \<mapsto> ''Farms;Crops;Weather;Prices;Families;Travel'',
                ''archival_collection'' \<mapsto> ''c1;c2;c3;c4;c5;c6'',
                ''archival_call_number'' \<mapsto> ''n1;n2;n3;n4;n5;n6'')"

section \<open>Properties of the counter and of the sort\<close>

lemma split_char_nonempty: "split_char c s \<noteq> []"
  by (induction s) (auto split: list.splits)

lemma split_char_no_sep: "c \<notin> set s \<Longrightarrow> split_char c s = [s]"
  by (induction s) auto

lemma keys_update:
  "map fst (update_term_counting_dict d k) =
     (if k \<in> set (map fst d) then map fst d else map fst d @ [k])"
  by (induction d k rule: update_term_counting_dict.induct) auto

lemma map_of_update:
  "distinct (map fst d) \<Longrightarrow>
   map_of (update_term_counting_dict d k) =
     (map_of d)(k \<mapsto> (case map_of d k of None \<Rightarrow> 1 | Some c \<Rightarrow> c + 1))"
proof (induction d k rule: update_term_counting_dict.induct)
  case (1 t)
  then show ?case by simp
next
  case (2 k c terms t)
  then show ?case by (auto simp: fun_upd_twist)
qed

lemma first_index_less: "x \<in> set xs \<Longrightarrow> first_index xs x < length xs"
  unfolding first_index_def by (induction xs) auto

lemma first_index_append_old: "x \<in> set xs \<Longrightarrow> first_index (xs @ ys) x = first_index xs x"
  unfolding first_index_def by (induction xs) auto

lemma first_index_append_new: "x \<notin> set xs \<Longrightarrow> first_index (xs @ [x]) x = length xs"
  unfolding first_index_def by (induction xs) auto

text \<open>What the counter holds after a sequence of updates from the empty dictionary.\<close>

definition counter_inv :: "'a list \<Rightarrow> ('a \<times> nat) list \<Rightarrow> bool" where
  "counter_inv scan d =
     (distinct (map fst d) \<and> set (map fst d) = set scan \<and>
      (\<forall>k \<in> set scan. map_of d k = Some (count_list scan k)) \<and>
      sorted_wrt (\<lambda>a b. first_index scan a < first_index scan b) (map fst d))"

lemma counter_inv_empty: "counter_inv [] []"
  by (simp add: counter_inv_def)

lemma counter_inv_step:
  assumes "counter_inv scan d"
  shows "counter_inv (scan @ [x]) (update_term_counting_dict d x)"
proof -
  from assms have dist: "distinct (map fst d)" and keys: "set (map fst d) = set scan"
    and cnt: "\<forall>k \<in> set scan. map_of d k = Some (count_list scan k)"
    and ord: "sorted_wrt (\<lambda>a b. first_index scan a < first_index scan b) (map fst d)"
    by (simp_all add: counter_inv_def)
  have ord': "sorted_wrt (\<lambda>a b. first_index (scan @ [x]) a < first_index (scan @ [x]) b) (map fst d)"
    using ord keys
    by (auto intro!: sorted_wrt_mono_rel [OF _ ord] simp: first_index_append_old)
  have none: "x \<notin> set scan \<Longrightarrow> map_of d x = None"
    using keys by (metis map_of_eq_None_iff set_map)
  show ?thesis
  proof (cases "x \<in> set scan")
    case True
    then show ?thesis
      using dist keys cnt ord'
      by (auto simp: counter_inv_def keys_update map_of_update)
  next
    case False
    have last: "\<forall>a \<in> set (map fst d). first_index (scan @ [x]) a < first_index (scan @ [x]) x"
      using keys False by (simp add: first_index_append_old first_index_append_new first_index_less)
    have k: "map fst (update_term_counting_dict d x) = map fst d @ [x]"
      using False keys by (simp add: keys_update)
    have m: "map_of (update_term_counting_dict d x) = (map_of d)(x \<mapsto> 1)"
      using dist none [OF False] by (simp add: map_of_update)
    have c1: "distinct (map fst (update_term_counting_dict d x))"
      unfolding k using dist keys False by simp
    have c2: "set (map fst (update_term_counting_dict d x)) = set (scan @ [x])"
      unfolding k using keys by auto
    have c3: "\<forall>k \<in> set (scan @ [x]).
        map_of (update_term_counting_dict d x) k = Some (count_list (scan @ [x]) k)"
      unfolding m using cnt False by auto
    have c4: "sorted_wrt (\<lambda>a b. first_index (scan @ [x]) a < first_index (scan @ [x]) b)
        (map fst (update_term_counting_dict d x))"
      unfolding k using ord' last by (simp add: sorted_wrt_append)
    show ?thesis
      unfolding counter_inv_def using c1 c2 c3 c4 by blast
  qed
qed

lemma counter_inv_foldl:
  "counter_inv scan d \<Longrightarrow> counter_inv (scan @ xs) (foldl update_term_counting_dict d xs)"
proof (induction xs arbitrary: scan d)
  case Nil
  then show ?case by simp
next
  case (Cons x xs)
  from Cons.IH [OF counter_inv_step [OF Cons.prems, of x]] show ?case by simp
qed

lemma counter_inv_scan: "counter_inv xs (foldl update_term_counting_dict [] xs)"
  using counter_inv_foldl [OF counter_inv_empty, of xs] by simp

text \<open>The nested loops of the aggregator are one run of updates over the scanned
  sequence.\<close>

lemma foldl_concat_map:
  "foldl (\<lambda>acc x. foldl g acc (h x)) a xs = foldl g a (concat (map h xs))"
  by (induction xs arbitrary: a) auto

lemma get_terms_row_scan:
  "get_terms_row sep column tc r =
     foldl update_term_counting_dict tc (cell_terms sep (get_default r column []))"
  by (simp add: get_terms_row_def cell_terms_def split_char_no_sep Let_def)

lemma get_terms_counter_scan:
  "get_terms_counter metadata args sep =
     foldl update_term_counting_dict [] (scanned_terms metadata args sep)"
proof -
  have inner: "\<And>tc column. foldl (get_terms_row sep column) tc metadata =
      foldl update_term_counting_dict tc
        (concat (map (\<lambda>r. cell_terms sep (get_default r column [])) metadata))"
    by (simp add: get_terms_row_scan [abs_def] foldl_concat_map)
  show ?thesis
    by (simp add: get_terms_counter_def scanned_terms_def inner foldl_concat_map)
qed

text \<open>A stable sort by a key puts a smaller key first and keeps, among equal keys,
  whatever order the input had.\<close>

lemma set_insort_key_eq: "set (insort_key f x ys) = insert x (set ys)"
  by (induction ys) auto

lemma sorted_wrt_insort_key_stable:
  fixes f :: "'a \<Rightarrow> 'b::linorder"
  assumes "sorted_wrt (\<lambda>a b. f a < f b \<or> (f a = f b \<and> Q a b)) ys"
    and "\<forall>y \<in> set ys. Q x y"
  shows "sorted_wrt (\<lambda>a b. f a < f b \<or> (f a = f b \<and> Q a b)) (insort_key f x ys)"
  using assms
proof (induction ys)
  case Nil
  then show ?case by simp
next
  case (Cons y ys)
  show ?case
  proof (cases "f x \<le> f y")
    case True
    have "\<forall>z \<in> set (y # ys). f x < f z \<or> (f x = f z \<and> Q x z)"
      using True Cons.prems by fastforce
    with True Cons.prems(1) show ?thesis by simp
  next
    case False
    have rest: "sorted_wrt (\<lambda>a b. f a < f b \<or> (f a = f b \<and> Q a b)) (insort_key f x ys)"
      using Cons by simp
    have "\<forall>z \<in> set (insort_key f x ys). f y < f z \<or> (f y = f z \<and> Q y z)"
      using False Cons.prems(1) by (auto simp: set_insort_key_eq)
    with False rest show ?thesis by simp
  qed
qed

lemma sorted_wrt_sort_key_stable:
  fixes f :: "'a \<Rightarrow> 'b::linorder"
  assumes "sorted_wrt Q xs"
  shows "sorted_wrt (\<lambda>a b. f a < f b \<or> (f a = f b \<and> Q a b)) (sort_key f xs)"
  using assms
proof (induction xs)
  case Nil
  then show ?case by simp
next
  case (Cons x xs)
  then have "sorted_wrt (\<lambda>a b. f a < f b \<or> (f a = f b \<and> Q a b)) (sort_key f xs)"
    and "\<forall>y \<in> set (sort_key f xs). Q x y"
    by simp_all
  then show ?case
    by (simp add: sort_key_def [symmetric] sorted_wrt_insort_key_stable)
qed

lemma items_of_counter:
  assumes "counter_inv scan d" and "item \<in> set d"
  shows "snd item = count_list scan (fst item)"
proof -
  from assms(1) have dist: "distinct (map fst d)"
    and keys: "set (map fst d) = set scan"
    and cnt: "\<forall>k \<in> set scan. map_of d k = Some (count_list scan k)"
    by (simp_all add: counter_inv_def)
  obtain k c where item: "item = (k, c)" by (cases item)
  with assms(2) dist have "map_of d k = Some c" by simp
  moreover have "k \<in> set scan" using keys assms(2) item by force
  ultimately show ?thesis using cnt item by simp
qed

lemma sorted_items_desc_order:
  assumes "counter_inv scan d"
  shows "sorted_wrt (freq_order scan) (map fst (sorted_items_desc d))"
proof -
  let ?f = "\<lambda>item::'a \<times> nat. - int (snd item)"
  let ?Q = "\<lambda>a b::'a \<times> nat. first_index scan (fst a) < first_index scan (fst b)"
  from assms have "sorted_wrt (\<lambda>a b. first_index scan a < first_index scan b) (map fst d)"
    by (simp add: counter_inv_def)
  then have "sorted_wrt ?Q d" by (simp add: sorted_wrt_map)
  then have s: "sorted_wrt (\<lambda>a b. ?f a < ?f b \<or> (?f a = ?f b \<and> ?Q a b)) (sort_key ?f d)"
    by (rule sorted_wrt_sort_key_stable)
  have "sorted_wrt (\<lambda>a b. freq_order scan (fst a) (fst b)) (sort_key ?f d)"
  proof (rule sorted_wrt_mono_rel [OF _ s])
    fix a b
    assume a: "a \<in> set (sort_key ?f d)" and b: "b \<in> set (sort_key ?f d)"
      and r: "?f a < ?f b \<or> (?f a = ?f b \<and> ?Q a b)"
    from a b have "snd a = count_list scan (fst a)" "snd b = count_list scan (fst b)"
      using items_of_counter [OF assms] by simp_all
    with r show "freq_order scan (fst a) (fst b)"
      by (auto simp: freq_order_def)
  qed
  then show ?thesis
    by (simp add: sorted_wrt_map sorted_items_desc_def)
qed

lemma sorted_wrt_slice_to: "sorted_wrt R xs \<Longrightarrow> sorted_wrt R (slice_to xs n)"
  by (simp add: slice_to_def sorted_wrt_take)

lemma keys_sorted_items_desc:
  "set (map fst (sorted_items_desc d)) = set (map fst d)"
  "distinct (map fst (sorted_items_desc d)) = distinct (map fst d)"
  by (simp_all add: sorted_items_desc_def distinct_map)

section \<open>Frequency order of the aggregated terms\<close>

text \<open>
  Claim C3. For all rows, columns and separators, the terms that the aggregator
  returns are in frequency order with respect to the scanned sequence: of two terms
  of the result, the earlier one has the higher occurrence count, or the same count
  and the earlier first occurrence in the scan. The same holds of every truncation
  \<^verbatim>\<open>[:n]\<close> of the result. The result has every scanned term exactly once.
\<close>

theorem get_terms_frequency_order:
  "sorted_wrt (freq_order (scanned_terms metadata args sep)) (get_terms_sep metadata args sep) \<and>
   sorted_wrt (freq_order (scanned_terms metadata args sep))
     (slice_to (get_terms_sep metadata args sep) n) \<and>
   distinct (get_terms_sep metadata args sep) \<and>
   set (get_terms_sep metadata args sep) = set (scanned_terms metadata args sep)"
proof -
  let ?scan = "scanned_terms metadata args sep"
  have inv: "counter_inv ?scan (get_terms_counter metadata args sep)"
    unfolding get_terms_counter_scan by (rule counter_inv_scan)
  have ord: "sorted_wrt (freq_order ?scan) (get_terms_sep metadata args sep)"
    unfolding get_terms_sep_def by (rule sorted_items_desc_order [OF inv])
  have "distinct (get_terms_sep metadata args sep)"
    and "set (get_terms_sep metadata args sep) = set ?scan"
    using inv unfolding get_terms_sep_def keys_sorted_items_desc
    by (simp_all add: counter_inv_def)
  with ord sorted_wrt_slice_to [OF ord] show ?thesis by blast
qed

text \<open>Two rows with the cells \<open>b;a\<close> and \<open>a;c\<close>: \<open>a\<close> is counted twice and comes
  first, \<open>b\<close> and \<open>c\<close> follow in the order in which the scan met them.\<close>

theorem get_terms_frequency_order_witness:
  "get_terms_sep [[''s'' \<mapsto> ''b;a''], [''s'' \<mapsto> ''a;c'']] [''s''] (CHR '';'') = [''a'', ''b'', ''c''] \<and>
   scanned_terms [[''s'' \<mapsto> ''b;a''], [''s'' \<mapsto> ''a;c'']] [''s''] (CHR '';'') = [''b'', ''a'', ''a'', ''c''] \<and>
   sorted_wrt (freq_order [''b'', ''a'', ''a'', ''c'']) [''a'', ''b'', ''c''] \<and>
   sorted_wrt (freq_order [''b'', ''a'', ''a'', ''c'']) (slice_to [''a'', ''b'', ''c''] 2)"
proof -
  have e: "get_terms_sep [[''s'' \<mapsto> ''b;a''], [''s'' \<mapsto> ''a;c'']] [''s''] (CHR '';'') = [''a'', ''b'', ''c'']"
    by code_simp
  have s: "scanned_terms [[''s'' \<mapsto> ''b;a''], [''s'' \<mapsto> ''a;c'']] [''s''] (CHR '';'') = [''b'', ''a'', ''a'', ''c'']"
    by code_simp
  from get_terms_frequency_order [of "[[''s'' \<mapsto> ''b;a''], [''s'' \<mapsto> ''a;c'']]" "[''s'']" "CHR '';''" 2]
  show ?thesis unfolding e s by simp
qed

section \<open>Classification of name and subject entries\<close>

lemma strip_empty_iff: "strip s = [] \<longleftrightarrow> list_all is_space s"
proof -
  have "strip s = [] \<longleftrightarrow> (\<forall>c \<in> set (dropWhile is_space s). is_space c)"
    by (simp add: strip_def dropWhile_eq_Nil_conv)
  also have "\<dots> \<longleftrightarrow> dropWhile is_space s = []"
  proof
    assume a: "\<forall>c \<in> set (dropWhile is_space s). is_space c"
    show "dropWhile is_space s = []"
    proof (rule ccontr)
      assume n: "dropWhile is_space s \<noteq> []"
      then have "\<not> is_space (hd (dropWhile is_space s))" by (rule hd_dropWhile)
      moreover have "hd (dropWhile is_space s) \<in> set (dropWhile is_space s)" using n by simp
      ultimately show False using a by blast
    qed
  qed (auto dest: set_dropWhileD)
  also have "\<dots> \<longleftrightarrow> list_all is_space s"
    by (simp add: dropWhile_eq_Nil_conv list_all_iff)
  finally show ?thesis .
qed

lemma add_term_vocabulary_entry:
  "add_term_vocabulary t fi fb fs tu = fs @ classified_entry t fi fb tu"
  by (cases tu) (simp add: add_term_vocabulary_def classified_entry_def add_def strip_empty_iff)

text \<open>
  Claim C2. The loop that adds name and subject entries appends, for every pair of a
  term and a URI in order, the entry of the decision order: second indicator \<open>0\<close>
  and no source subfield when the URI contains \<open>id.loc.gov\<close>; else second indicator
  \<open>7\<close> and subfield 2 \<open>fast\<close> when it contains \<open>id.worldcat.org/fast\<close>; else second
  indicator \<open>7\<close> and subfield 2 \<open>local\<close> when it is empty; else the fallback
  indicator and no source subfield; and nothing at all for a term that is empty after
  trimming.
\<close>

theorem add_terms_multiple_vocabularies_classified:
  "add_terms_multiple_vocabularies fs t terms_uris first_indicator fallback =
     fs @ concat (map (classified_entry t first_indicator fallback) terms_uris)"
  unfolding add_terms_multiple_vocabularies_def
  by (induction terms_uris arbitrary: fs) (simp_all add: add_term_vocabulary_entry)

text \<open>A FAST URI, no URI, a name-authority URI, an unknown URI and a blank term.\<close>

theorem add_terms_multiple_vocabularies_classified_witness:
  "add_terms_multiple_vocabularies [] ''600''
     [(''Smith, Ann'', ''http://id.worldcat.org/fast/123''), (''Jones, Bo'', []),
      (''Roe, Cy'', ''http://id.loc.gov/authorities/names/n1''), (''Doe, Di'', ''https://example.org/x''),
      (''  '', [])]
     (Str ''1'') (Num 4) =
   [DataField ''600'' (Str ''1'', Str ''7'') [(Str ''a'', Str ''Smith, Ann''), (Str ''2'', Str ''fast'')],
    DataField ''600'' (Str ''1'', Str ''7'') [(Str ''a'', Str ''Jones, Bo''), (Str ''2'', Str ''local'')],
    DataField ''600'' (Str ''1'', Str ''0'') [(Str ''a'', Str ''Roe, Cy'')],
    DataField ''600'' (Str ''1'', Num 4) [(Str ''a'', Str ''Doe, Di'')]]"
proof -
  have e: "concat (map (classified_entry ''600'' (Str ''1'') (Num 4))
     [(''Smith, Ann'', ''http://id.worldcat.org/fast/123''), (''Jones, Bo'', []),
      (''Roe, Cy'', ''http://id.loc.gov/authorities/names/n1''), (''Doe, Di'', ''https://example.org/x''),
      (''  '', [])]) =
   [DataField ''600'' (Str ''1'', Str ''7'') [(Str ''a'', Str ''Smith, Ann''), (Str ''2'', Str ''fast'')],
    DataField ''600'' (Str ''1'', Str ''7'') [(Str ''a'', Str ''Jones, Bo''), (Str ''2'', Str ''local'')],
    DataField ''600'' (Str ''1'', Str ''0'') [(Str ''a'', Str ''Roe, Cy'')],
    DataField ''600'' (Str ''1'', Num 4) [(Str ''a'', Str ''Doe, Di'')]]"
    by code_simp
  show ?thesis
    unfolding add_terms_multiple_vocabularies_classified e by simp
qed

section \<open>Pairing of terms and URIs\<close>

lemma length_zip_longest: "length (zip_longest xs ys v) = max (length xs) (length ys)"
  by (induction xs ys v rule: zip_longest.induct) auto

lemma nth_zip_longest:
  "i < max (length xs) (length ys) \<Longrightarrow>
   zip_longest xs ys v ! i = (if i < length xs then xs ! i else v, if i < length ys then ys ! i else v)"
proof (induction xs ys v arbitrary: i rule: zip_longest.induct)
  case (1 v)
  then show ?case by simp
next
  case (2 x xs v)
  then show ?case by (cases i) auto
next
  case (3 y ys v)
  then show ?case by (cases i) auto
next
  case (4 x xs y ys v)
  then show ?case by (cases i) auto
qed

lemma get_terms_and_uris_row_pairs:
  "get_terms_and_uris_row column tc r =
     foldl update_term_counting_dict tc
       (cell_pairs (get_default r column '' '') (get_default r (column @ ''_valueURI'') '' ''))"
  by (simp add: get_terms_and_uris_row_def cell_pairs_def Let_def)

lemma get_terms_and_uris_counter_scan:
  "get_terms_and_uris_counter metadata args =
     foldl update_term_counting_dict [] (scanned_pairs metadata args)"
proof -
  have inner: "\<And>tc column. foldl (get_terms_and_uris_row column) tc metadata =
      foldl update_term_counting_dict tc
        (concat (map (\<lambda>r. cell_pairs (get_default r column '' '')
           (get_default r (column @ ''_valueURI'') '' '')) metadata))"
    by (simp add: get_terms_and_uris_row_pairs [abs_def] foldl_concat_map)
  show ?thesis
    by (simp add: get_terms_and_uris_counter_def scanned_pairs_def inner foldl_concat_map)
qed

lemma set_get_terms_and_uris:
  "set (get_terms_and_uris metadata args) = set (scanned_pairs metadata args)"
proof -
  have "counter_inv (scanned_pairs metadata args) (get_terms_and_uris_counter metadata args)"
    unfolding get_terms_and_uris_counter_scan by (rule counter_inv_scan)
  then show ?thesis
    unfolding get_terms_and_uris_def keys_sorted_items_desc by (simp add: counter_inv_def)
qed

text \<open>
  Claim C4, as amended. The result of the paired aggregator has exactly the scanned
  pairs. A term cell with a semicolon, of \<open>k\<close> pieces, beside a URI cell of \<open>m\<close>
  pieces gives the larger of \<open>k\<close> and \<open>m\<close> pairs: pair \<open>i\<close> has the \<open>i\<close>-th term
  piece, or the empty string from \<open>k\<close> on, and the \<open>i\<close>-th URI piece, or the empty
  string from \<open>m\<close> on. A term cell without a semicolon gives the one pair of the two
  whole cells, and an empty term cell gives none. All of it is total on cells that
  are strings.
\<close>

theorem paired_cells_zip_longest:
  "set (get_terms_and_uris metadata args) = set (scanned_pairs metadata args) \<and>
   (CHR '';'' \<in> set t \<longrightarrow>
      length (cell_pairs t u) = max (length (split_char (CHR '';'') t)) (length (split_char (CHR '';'') u)) \<and>
      (\<forall>i < length (cell_pairs t u).
         cell_pairs t u ! i =
           (if i < length (split_char (CHR '';'') t) then split_char (CHR '';'') t ! i else [],
            if i < length (split_char (CHR '';'') u) then split_char (CHR '';'') u ! i else []))) \<and>
   (t \<noteq> [] \<and> CHR '';'' \<notin> set t \<longrightarrow> cell_pairs t u = [(t, u)]) \<and>
   (t = [] \<longrightarrow> cell_pairs t u = [])"
proof -
  have a: "CHR '';'' \<in> set t \<Longrightarrow>
      cell_pairs t u = zip_longest (split_char (CHR '';'') t) (split_char (CHR '';'') u) []"
    by (auto simp: cell_pairs_def)
  show ?thesis
    using set_get_terms_and_uris [of metadata args]
    by (auto simp: a length_zip_longest nth_zip_longest cell_pairs_def)
qed



text \<open>The claim as stated fails: a term cell of two pieces beside a URI cell of three
  gives three pairs, the third with an empty term.\<close>

theorem paired_extra_uri_counterexample:
  "split_char (CHR '';'') ''a;b'' = [''a'', ''b''] \<and>
   get_terms_and_uris [[''n'' \<mapsto> ''a;b'', ''n_valueURI'' \<mapsto> ''x;y;z'']] [''n''] =
     [(''a'', ''x''), (''b'', ''y''), ([], ''z'')]"
  by code_simp

theorem paired_cells_zip_longest_witness:
  "CHR '';'' \<in> set ''a;b'' \<and> cell_pairs ''a;b'' ''x'' = [(''a'', ''x''), (''b'', [])] \<and>
   length (cell_pairs ''a;b'' ''x'') = 2 \<and>
   ''a'' \<noteq> [] \<and> CHR '';'' \<notin> set ''a'' \<and> cell_pairs ''a'' ''x;y'' = [(''a'', ''x;y'')] \<and>
   cell_pairs [] ''x'' = []"
proof -
  have s: "split_char (CHR '';'') ''a;b'' = [''a'', ''b'']" "split_char (CHR '';'') ''x'' = [''x'']"
    by simp_all
  have h: "CHR '';'' \<in> set ''a;b''" by simp
  from paired_cells_zip_longest [of "[]" "[]" "''a;b''" "''x''"] h
  have l: "length (cell_pairs ''a;b'' ''x'') = 2"
    and n: "\<forall>i < length (cell_pairs ''a;b'' ''x'').
      cell_pairs ''a;b'' ''x'' ! i = (if i < 2 then [''a'', ''b''] ! i else [], if i < 1 then [''x''] ! i else [])"
    unfolding s by simp_all
  from l n have "cell_pairs ''a;b'' ''x'' ! 0 = (''a'', ''x'')" "cell_pairs ''a;b'' ''x'' ! 1 = (''b'', [])"
    by simp_all
  with l have p: "cell_pairs ''a;b'' ''x'' = [(''a'', ''x''), (''b'', [])]"
    by (cases "cell_pairs ''a;b'' ''x''"; cases "tl (cell_pairs ''a;b'' ''x'')") auto
  from paired_cells_zip_longest [of "[]" "[]" "''a''" "''x;y''"]
  have q: "cell_pairs ''a'' ''x;y'' = [(''a'', ''x;y'')]" by simp
  from paired_cells_zip_longest [of "[]" "[]" "[]" "''x''"]
  have r: "cell_pairs [] ''x'' = []" by simp
  from h l p q r show ?thesis by simp
qed

section \<open>Years and the date range\<close>

lemma years_loop_eq:
  "years_loop metadata =
     (if list_all (\<lambda>r. r ''date_original'' \<noteq> None) metadata then Inr (years_of metadata)
      else Inl (KeyError ''date_original''))"
proof (induction metadata)
  case Nil
  then show ?case by (simp add: years_of_def)
next
  case (Cons r rs)
  then show ?case
    by (cases "r ''date_original''")
       (simp_all add: and_then_def getitem_def get_default_def years_of_def)
qed

lemma sorted_first_Min:
  fixes ys :: "'a::linorder list"
  shows "sorted ys \<Longrightarrow> ys \<noteq> [] \<Longrightarrow> ys ! 0 = Min (set ys)"
  by (cases ys) (auto intro!: Min_eqI [symmetric])

lemma sorted_last_Max:
  fixes ys :: "'a::linorder list"
  shows "sorted ys \<Longrightarrow> ys \<noteq> [] \<Longrightarrow> last ys = Max (set ys)"
proof (induction ys)
  case Nil
  then show ?case by simp
next
  case (Cons y ys)
  show ?case
  proof (cases "ys = []")
    case True
    then show ?thesis by simp
  next
    case False
    with Cons have l: "last ys = Max (set ys)" by simp
    have "y \<le> last ys" using Cons.prems False by auto
    with l False show ?thesis by (simp add: max_def)
  qed
qed

text \<open>
  Claim C7, as amended. When every row has the original-date column, the years are
  the first four characters of every cell that is not empty, sorted lexicographically
  (and a row without the column raises \<open>KeyError\<close>). The date range of the sorted
  years is the empty string when there is no year, the year when there is exactly one
  cell with a year, and otherwise the least year, a hyphen, the greatest year and a
  full stop, also when all the years are the same.
\<close>

theorem get_date_range_of_years:
  "get_years metadata =
     (if list_all (\<lambda>r. r ''date_original'' \<noteq> None) metadata then Inr (sort (years_of metadata))
      else Inl (KeyError ''date_original'')) \<and>
   get_date_range (sort ys) =
     (if length ys = 0 then []
      else if length ys = 1 then ys ! 0
      else Min (set ys) @ ''-'' @ Max (set ys) @ ''.'')"
proof -
  have a: "get_years metadata =
     (if list_all (\<lambda>r. r ''date_original'' \<noteq> None) metadata then Inr (sort (years_of metadata))
      else Inl (KeyError ''date_original''))"
    by (simp add: get_years_def years_loop_eq and_then_def)
  have b: "get_date_range (sort ys) =
     (if length ys = 0 then []
      else if length ys = 1 then ys ! 0
      else Min (set ys) @ ''-'' @ Max (set ys) @ ''.'')"
  proof (cases "length ys > 1")
    case True
    then have "length (sort ys) > 1" by simp
    then have ne: "sort ys \<noteq> []" by (cases "sort ys") simp_all
    have "sort ys ! 0 = Min (set ys)" "last (sort ys) = Max (set ys)"
      using sorted_first_Min [OF sorted_sort ne] sorted_last_Max [OF sorted_sort ne] by simp_all
    moreover from True have "ys \<noteq> []" by auto
    ultimately show ?thesis using True by (simp add: get_date_range_def)
  next
    case False
    then consider "ys = []" | y where "ys = [y]"
      by (cases ys) (auto simp: length_Suc_conv)
    then show ?thesis by cases (simp_all add: get_date_range_def)
  qed
  from a b show ?thesis by blast
qed

text \<open>The claim as stated fails: two cells of the same year are one distinct year, and
  the range is not that single year.\<close>

theorem get_date_range_same_year_counterexample:
  "get_years [[''date_original'' \<mapsto> ''1950-01-02''], [''date_original'' \<mapsto> ''1950-05-05'']]
     = Inr [''1950'', ''1950''] \<and>
   remdups [''1950'', ''1950''] = [''1950''] \<and>
   get_date_range [''1950'', ''1950''] = ''1950-1950.'' \<and>
   get_date_range [''1950'', ''1950''] \<noteq> ''1950''"
  by code_simp

theorem get_date_range_of_years_witness:
  "get_years [[''date_original'' \<mapsto> ''1962-01-02''], [''date_original'' \<mapsto> []], [''date_original'' \<mapsto> ''1950-05-05'']]
     = Inr [''1950'', ''1962''] \<and>
   get_date_range (sort [''1950'', ''1962'', ''1950'']) = ''1950-1962.''"
proof -
  have l: "list_all (\<lambda>r. r ''date_original'' \<noteq> None)
     [[''date_original'' \<mapsto> ''1962-01-02''], [''date_original'' \<mapsto> []], [''date_original'' \<mapsto> ''1950-05-05'']]"
    by simp
  have s: "sort (years_of [[''date_original'' \<mapsto> ''1962-01-02''], [''date_original'' \<mapsto> []], [''date_original'' \<mapsto> ''1950-05-05'']])
     = [''1950'', ''1962'']"
    by code_simp
  have m: "Min (set [''1950'', ''1962'', ''1950'']) = ''1950''" "Max (set [''1950'', ''1962'', ''1950'']) = ''1962''"
    by code_simp+
  from get_date_range_of_years [of "[[''date_original'' \<mapsto> ''1962-01-02''], [''date_original'' \<mapsto> []], [''date_original'' \<mapsto> ''1950-05-05'']]"
      "[''1950'', ''1962'', ''1950'']"]
  show ?thesis unfolding s m using l by simp
qed

section \<open>The title-case transform\<close>

lemma of_char_to_lower: "is_upper c \<Longrightarrow> (of_char (to_lower c) :: nat) = of_char c + 32"
  by (cases c) (auto simp: is_upper_def Let_def of_bool_def split: if_splits)

lemma of_char_to_title: "has_title c \<Longrightarrow> (of_char (to_title c) :: nat) + 32 = of_char c"
  by (cases c) (auto simp: has_title_def Let_def of_bool_def split: if_splits)

lemma to_lower_id: "\<not> is_upper c \<Longrightarrow> to_lower c = c"
  by (cases c) simp

lemma to_title_id: "\<not> has_title c \<Longrightarrow> to_title c = c"
  by (cases c) simp

lemma not_upper_to_lower: "\<not> is_upper (to_lower c)"
proof (cases "is_upper c")
  case True
  from of_char_to_lower [OF True] True show ?thesis by (auto simp: is_upper_def Let_def)
next
  case False
  then show ?thesis by (simp add: to_lower_id)
qed

lemma is_space_to_lower: "is_space (to_lower c) = is_space c"
proof (cases "is_upper c")
  case True
  from of_char_to_lower [OF True] True show ?thesis
    by (auto simp: is_upper_def is_space_def Let_def)
next
  case False
  then show ?thesis by (simp add: to_lower_id)
qed

lemma is_space_to_title: "is_space (to_title c) = is_space c"
proof (cases "has_title c")
  case True
  from of_char_to_title [OF True] True show ?thesis
    by (auto simp: has_title_def is_space_def Let_def)
next
  case False
  then show ?thesis by (simp add: to_title_id)
qed

lemma is_space_not_cased: "is_space c \<Longrightarrow> \<not> is_cased c"
  by (auto simp: is_space_def is_cased_def is_upper_def is_lower_def Let_def)

lemma to_lower_apostrophe: "to_lower c = apostrophe \<longleftrightarrow> c = apostrophe"
proof (cases "is_upper c")
  case True
  from of_char_to_lower [OF True] True have "(of_char (to_lower c) :: nat) \<noteq> 39"
    by (auto simp: is_upper_def Let_def)
  moreover have "(of_char c :: nat) \<noteq> 39" using True by (auto simp: is_upper_def Let_def)
  ultimately show ?thesis by (auto simp: apostrophe_def)
next
  case False
  then show ?thesis by (simp add: to_lower_id)
qed

lemma to_title_apostrophe: "to_title c = apostrophe \<longleftrightarrow> c = apostrophe"
proof (cases "has_title c")
  case True
  from of_char_to_title [OF True] True have "(of_char (to_title c) :: nat) \<noteq> 39"
    by (auto simp: has_title_def Let_def)
  moreover have "(of_char c :: nat) \<noteq> 39" using True by (auto simp: has_title_def Let_def)
  ultimately show ?thesis by (auto simp: apostrophe_def)
next
  case False
  then show ?thesis by (simp add: to_title_id)
qed


lemma length_title_from: "length (title_from p s) = length s"
  by (induction s arbitrary: p) auto

lemma title_from_snoc:
  "title_from p (xs @ [c]) =
     title_from p xs @ [if (if xs = [] then p else is_cased (last xs)) then to_lower c else to_title c]"
  by (induction xs arbitrary: p) auto

lemma words_from_title_from:
  "words_from (title_from False cur) (title_from (if cur = [] then False else is_cased (last cur)) cs) =
     map (title_from False) (words_from cur cs)"
proof (induction cs arbitrary: cur)
  case Nil
  have "title_from False cur = [] \<longleftrightarrow> cur = []"
    using length_title_from [of False cur] by (metis length_0_conv)
  then show ?case by simp
next
  case (Cons c cs)
  let ?p = "if cur = [] then False else is_cased (last cur)"
  let ?c = "if ?p then to_lower c else to_title c"
  have sp: "is_space ?c = is_space c"
    by (simp add: is_space_to_lower is_space_to_title)
  have emp: "title_from False cur = [] \<longleftrightarrow> cur = []"
    using length_title_from [of False cur] by (metis length_0_conv)
  show ?case
  proof (cases "is_space c")
    case True
    then have nc: "\<not> is_cased c" by (rule is_space_not_cased)
    from Cons.IH [of "[]"] have "words_from [] (title_from False cs) = map (title_from False) (words_from [] cs)"
      by simp
    with True nc sp emp show ?thesis by simp
  next
    case False
    from Cons.IH [of "cur @ [c]"]
    have "words_from (title_from False (cur @ [c])) (title_from (is_cased c) cs) =
        map (title_from False) (words_from (cur @ [c]) cs)"
      by simp
    then have "words_from (title_from False cur @ [?c]) (title_from (is_cased c) cs) =
        map (title_from False) (words_from (cur @ [c]) cs)"
      by (simp only: title_from_snoc)
    with False sp show ?thesis by simp
  qed
qed

lemma split_ws_title: "split_ws (title s) = map title (split_ws s)"
  using words_from_title_from [of "[]" s] by (simp add: split_ws_def title_def [abs_def])

lemma words_from_nonempty: "w \<in> set (words_from cur cs) \<Longrightarrow> w \<noteq> []"
  by (induction cs arbitrary: cur) (auto split: if_splits)

lemma split_char_pieces: "p \<in> set (split_char c s) \<Longrightarrow> c \<notin> set p"
proof (induction s arbitrary: p)
  case Nil
  then show ?case by simp
next
  case (Cons x xs)
  then show ?case
    by (cases "split_char c xs") (auto split: if_splits)
qed

lemma split_char_sep: "c \<in> set s \<Longrightarrow> length (split_char c s) > 1"
proof (induction s)
  case Nil
  then show ?case by simp
next
  case (Cons x xs)
  then show ?case
    using split_char_nonempty [of c xs]
    by (cases "split_char c xs") (auto split: if_splits)
qed

lemma hd_split_char: "hd (split_char c s) = takeWhile (\<lambda>x. x \<noteq> c) s"
proof (induction s)
  case Nil
  then show ?case by simp
next
  case (Cons x xs)
  then show ?case
    using split_char_nonempty [of c xs]
    by (cases "split_char c xs") auto
qed

lemma fix_apostrophe_cases:
  obtains "apostrophe \<notin> set w" "fix_apostrophe w = w"
  | p0 p1 where "apostrophe \<in> set w" "fix_apostrophe w = p0 @ apostrophe # lower p1"
      "apostrophe \<notin> set p0" "apostrophe \<notin> set p1" "p0 = takeWhile (\<lambda>x. x \<noteq> apostrophe) w"
proof (cases "apostrophe \<in> set w")
  case False
  then have "fix_apostrophe w = w"
    by (simp add: fix_apostrophe_def split_char_no_sep)
  with False show ?thesis using that(1) by blast
next
  case True
  from split_char_sep [OF True] obtain p0 p1 rest where
    parts: "split_char apostrophe w = p0 # p1 # rest"
    by (cases "split_char apostrophe w"; cases "tl (split_char apostrophe w)") auto
  then have f: "fix_apostrophe w = p0 @ apostrophe # lower p1"
    by (simp add: fix_apostrophe_def)
  have "apostrophe \<notin> set p0" "apostrophe \<notin> set p1"
    using split_char_pieces [of p0 apostrophe w] split_char_pieces [of p1 apostrophe w] parts
    by simp_all
  moreover have "p0 = takeWhile (\<lambda>x. x \<noteq> apostrophe) w"
    using hd_split_char [of apostrophe w] parts by simp
  ultimately show ?thesis using that(2) True f by blast
qed

lemma not_upper_lower_nth: "i < length s \<Longrightarrow> \<not> is_upper (lower s ! i)"
  by (simp add: lower_def not_upper_to_lower)

lemma apostrophe_lower: "apostrophe \<in> set (lower s) \<longleftrightarrow> apostrophe \<in> set s"
proof -
  have "(apostrophe = to_lower c) = (apostrophe = c)" for c
  proof -
    have "(apostrophe = to_lower c) = (to_lower c = apostrophe)" by (rule eq_commute)
    also have "\<dots> = (c = apostrophe)" by (rule to_lower_apostrophe)
    also have "\<dots> = (apostrophe = c)" by (rule eq_commute)
    finally show ?thesis .
  qed
  then show ?thesis by (induction s) (auto simp: lower_def)
qed

lemma fix_apostrophe_after:
  assumes "Suc j < length (fix_apostrophe w)" and "fix_apostrophe w ! j = apostrophe"
  shows "\<not> is_upper (fix_apostrophe w ! Suc j)"
proof (cases w rule: fix_apostrophe_cases)
  case 1
  with assms have "apostrophe \<in> set w" by (metis Suc_lessD nth_mem)
  with 1 show ?thesis by simp
next
  case (2 p0 p1)
  have j: "j = length p0"
  proof (rule ccontr)
    assume n: "j \<noteq> length p0"
    show False
    proof (cases "j < length p0")
      case True
      with assms(2) 2 have "p0 ! j = apostrophe" by (simp add: nth_append)
      with True 2(3) show False by (metis nth_mem)
    next
      case False
      define k where "k = j - length p0 - 1"
      with n False have k: "j = length p0 + Suc k" by simp
      with assms 2 have "lower p1 ! k = apostrophe" "k < length (lower p1)"
        by (simp_all add: nth_append)
      then have "apostrophe \<in> set (lower p1)" by (metis nth_mem)
      with 2(4) show False by (simp add: apostrophe_lower)
    qed
  qed
  with assms(1) 2 have "0 < length p1" by (simp add: lower_def)
  then have "\<not> is_upper (lower p1 ! 0)" by (rule not_upper_lower_nth)
  with j 2 show ?thesis by (simp add: nth_append)
qed

lemma lower_after:
  assumes "Suc j < length (lower w)"
  shows "\<not> is_upper (lower w ! Suc j)"
  using assms by (simp add: lower_def not_upper_to_lower)

lemma title_case_word_eq:
  "title_case_word n i w =
     (let x = fix_apostrophe w in
      if 0 < i \<and> Suc i < n \<and> x \<in> set dont_capitalize then lower x else x)"
  by (auto simp: title_case_word_def Let_def)

lemma title_case_words_nth:
  assumes "i < length (split_ws s)"
  shows "title_case_words s ! i = title_case_word (length (split_ws s)) i (title (split_ws s ! i))"
  using assms by (simp add: title_case_words_def split_ws_title Let_def nth_enumerate_eq)

lemma length_title_case_words: "length (title_case_words s) = length (split_ws s)"
  by (simp add: title_case_words_def split_ws_title Let_def)


lemma split_char_unfold:
  "split_char c s =
     takeWhile (\<lambda>x. x \<noteq> c) s #
     (case dropWhile (\<lambda>x. x \<noteq> c) s of [] \<Rightarrow> [] | x # rest \<Rightarrow> split_char c rest)"
proof (induction s)
  case Nil
  then show ?case by simp
next
  case (Cons x xs)
  then show ?case
    using split_char_nonempty [of c xs]
    by (cases "split_char c xs") auto
qed

lemma count_list_dropWhile:
  "count_list (dropWhile (\<lambda>x. x \<noteq> c) s) c = count_list s c"
  by (induction s) auto

lemma fix_apostrophe_single:
  assumes "count_list w apostrophe \<le> 1"
  shows "fix_apostrophe w = lower_after_apostrophe w"
proof (cases "dropWhile (\<lambda>x. x \<noteq> apostrophe) w")
  case Nil
  then have n: "apostrophe \<notin> set w" by (auto simp: dropWhile_eq_Nil_conv)
  then have tw: "takeWhile (\<lambda>x. x \<noteq> apostrophe) w = w" by (auto simp: takeWhile_eq_all_conv)
  have "lower_after_apostrophe w = w"
    unfolding lower_after_apostrophe_def Nil tw by (simp add: lower_def)
  moreover have "fix_apostrophe w = w"
    by (simp add: fix_apostrophe_def split_char_no_sep [OF n])
  ultimately show ?thesis by simp
next
  case (Cons x rest)
  then have x: "x = apostrophe"
    using hd_dropWhile [of "\<lambda>x. x \<noteq> apostrophe" w] by simp
  have "count_list (x # rest) apostrophe \<le> 1"
    using assms count_list_dropWhile [of apostrophe w] Cons by simp
  with x have "count_list rest apostrophe = 0" by simp
  then have "apostrophe \<notin> set rest" by (simp add: count_list_0_iff)
  then have r: "split_char apostrophe rest = [rest]" by (rule split_char_no_sep)
  have s: "split_char apostrophe w = [takeWhile (\<lambda>x. x \<noteq> apostrophe) w, rest]"
    using split_char_unfold [of apostrophe w] Cons r by simp
  have "to_lower apostrophe = apostrophe" using to_lower_apostrophe [of apostrophe] by simp
  with s Cons x show ?thesis
    by (simp add: fix_apostrophe_def lower_after_apostrophe_def lower_def)
qed

lemma count_list_title_from:
  "count_list (title_from p w) apostrophe = count_list w apostrophe"
  by (induction w arbitrary: p) (auto simp: to_lower_apostrophe to_title_apostrophe)

lemma stopwords_no_apostrophe: "w \<in> set dont_capitalize \<Longrightarrow> apostrophe \<notin> set w"
  by (auto simp: dont_capitalize_def apostrophe_def)

lemma fix_apostrophe_stopword:
  "fix_apostrophe x \<in> set dont_capitalize \<longleftrightarrow> x \<in> set dont_capitalize"
proof (cases x rule: fix_apostrophe_cases)
  case 1
  then show ?thesis by simp
next
  case (2 p0 p1)
  then have "apostrophe \<in> set (fix_apostrophe x)" by simp
  with 2(1) show ?thesis using stopwords_no_apostrophe by blast
qed

lemma hd_fix_apostrophe: "x \<noteq> [] \<Longrightarrow> hd (fix_apostrophe x) = hd x"
proof (cases x rule: fix_apostrophe_cases)
  case 1
  then show ?thesis by simp
next
  case (2 p0 p1)
  assume "x \<noteq> []"
  then show ?thesis using 2 by (cases x) (auto split: if_splits)
qed

lemma fix_apostrophe_nonempty: "x \<noteq> [] \<Longrightarrow> fix_apostrophe x \<noteq> []"
  by (cases x rule: fix_apostrophe_cases) simp_all

lemma hd_title: "w \<noteq> [] \<Longrightarrow> hd (title w) = to_title (hd w)"
  by (cases w) (simp_all add: title_def)

lemma hd_lower: "x \<noteq> [] \<Longrightarrow> hd (lower x) = to_lower (hd x)"
  by (cases x) (simp_all add: lower_def)

text \<open>
  Claim C9, as amended. On a string whose title-case form stays below U+0100, the
  transform joins its output words with single blanks, one output word for each
  word of the input. The first character of an output word is the title-case form
  of the first character of the input word, lowered again when the word is neither
  the first nor the last and its capitalised form is in the fixed stopword list.
  The output word of an input word with at most one apostrophe is the word
  capitalised by \<^verbatim>\<open>str.title\<close>, its text after the apostrophe lowered, and lowered
  as a whole when it is such a stopword. In every output word a character that
  follows an apostrophe is not an upper-case letter. The stopword list has \<open>Of\<close> but
  not \<open>The\<close>: \<open>the end of the road\<close> maps to \<open>The End of The Road\<close>, and \<open>Wasn'T\<close>
  maps to \<open>Wasn't\<close>. What becomes of a word with two or more apostrophes is left
  open.
\<close>

theorem title_case_words_spec:
  assumes "title_exact s"
  shows "title_case s = join '' '' (title_case_words s) \<and>
   length (title_case_words s) = length (split_ws s) \<and>
   (\<forall>i < length (split_ws s).
      (count_list (split_ws s ! i) apostrophe \<le> 1 \<longrightarrow>
         title_case_words s ! i =
           (let w = lower_after_apostrophe (title (split_ws s ! i)) in
            if 0 < i \<and> Suc i < length (split_ws s) \<and> w \<in> set dont_capitalize then lower w else w)) \<and>
      hd (title_case_words s ! i) =
        (if 0 < i \<and> Suc i < length (split_ws s) \<and> title (split_ws s ! i) \<in> set dont_capitalize
         then to_lower (to_title (hd (split_ws s ! i))) else to_title (hd (split_ws s ! i))) \<and>
      (\<forall>j. Suc j < length (title_case_words s ! i) \<and> title_case_words s ! i ! j = apostrophe \<longrightarrow>
         \<not> is_upper (title_case_words s ! i ! Suc j))) \<and>
   title_case ''the end of the road'' = ''The End of The Road'' \<and>
   title_case (''Wasn'' @ [apostrophe] @ ''T'') = ''Wasn'' @ [apostrophe] @ ''t''"
proof -
  have per_word: "(count_list (split_ws s ! i) apostrophe \<le> 1 \<longrightarrow>
         title_case_words s ! i =
           (let w = lower_after_apostrophe (title (split_ws s ! i)) in
            if 0 < i \<and> Suc i < length (split_ws s) \<and> w \<in> set dont_capitalize then lower w else w)) \<and>
      hd (title_case_words s ! i) =
        (if 0 < i \<and> Suc i < length (split_ws s) \<and> title (split_ws s ! i) \<in> set dont_capitalize
         then to_lower (to_title (hd (split_ws s ! i))) else to_title (hd (split_ws s ! i))) \<and>
      (\<forall>j. Suc j < length (title_case_words s ! i) \<and> title_case_words s ! i ! j = apostrophe \<longrightarrow>
         \<not> is_upper (title_case_words s ! i ! Suc j))"
    if i: "i < length (split_ws s)" for i
  proof -
    let ?w = "split_ws s ! i"
    let ?x = "fix_apostrophe (title ?w)"
    let ?c = "0 < i \<and> Suc i < length (split_ws s) \<and> ?x \<in> set dont_capitalize"
    let ?d = "0 < i \<and> Suc i < length (split_ws s) \<and> title ?w \<in> set dont_capitalize"
    have eq: "title_case_words s ! i = (if ?c then lower ?x else ?x)"
      using title_case_words_nth [OF i] by (simp add: title_case_word_eq Let_def)
    have cd: "?c \<longleftrightarrow> ?d" by (simp add: fix_apostrophe_stopword)
    have "?w \<in> set (words_from [] s)" using i by (simp add: split_ws_def)
    then have ne: "?w \<noteq> []" by (rule words_from_nonempty)
    then have net: "title ?w \<noteq> []" using length_title_from [of False ?w] by (auto simp: title_def)
    have nex: "?x \<noteq> []" using net by (rule fix_apostrophe_nonempty)
    have hx: "hd ?x = to_title (hd ?w)"
      using hd_fix_apostrophe [OF net] hd_title [OF ne] by simp
    have c1: "count_list ?w apostrophe \<le> 1 \<longrightarrow>
         title_case_words s ! i =
           (let w = lower_after_apostrophe (title ?w) in
            if 0 < i \<and> Suc i < length (split_ws s) \<and> w \<in> set dont_capitalize then lower w else w)"
    proof
      assume "count_list ?w apostrophe \<le> 1"
      then have "count_list (title ?w) apostrophe \<le> 1"
        by (simp add: title_def count_list_title_from)
      then have "?x = lower_after_apostrophe (title ?w)" by (rule fix_apostrophe_single)
      with eq show "title_case_words s ! i =
           (let w = lower_after_apostrophe (title ?w) in
            if 0 < i \<and> Suc i < length (split_ws s) \<and> w \<in> set dont_capitalize then lower w else w)"
        unfolding Let_def by simp
    qed
    have c2: "hd (title_case_words s ! i) =
        (if ?d then to_lower (to_title (hd ?w)) else to_title (hd ?w))"
    proof (cases ?d)
      case True
      with cd have ?c by blast
      with eq have l: "title_case_words s ! i = lower ?x" by presburger
      have "hd (title_case_words s ! i) = to_lower (to_title (hd ?w))"
        unfolding l using hd_lower [OF nex] hx by simp
      then show ?thesis unfolding if_P [OF True] .
    next
      case False
      with cd have "\<not> ?c" by blast
      with eq have l: "title_case_words s ! i = ?x" by presburger
      have "hd (title_case_words s ! i) = to_title (hd ?w)"
        unfolding l using hx by simp
      then show ?thesis unfolding if_not_P [OF False] .
    qed
    have c3: "\<forall>j. Suc j < length (title_case_words s ! i) \<and> title_case_words s ! i ! j = apostrophe \<longrightarrow>
         \<not> is_upper (title_case_words s ! i ! Suc j)"
    proof (cases ?c)
      case True
      with eq have l: "title_case_words s ! i = lower ?x" by presburger
      show ?thesis unfolding l using lower_after by blast
    next
      case False
      with eq have l: "title_case_words s ! i = ?x" by presburger
      show ?thesis unfolding l using fix_apostrophe_after by blast
    qed
    show ?thesis by (intro conjI c1 c2 c3)
  qed
  have all: "\<forall>i < length (split_ws s).
      (count_list (split_ws s ! i) apostrophe \<le> 1 \<longrightarrow>
         title_case_words s ! i =
           (let w = lower_after_apostrophe (title (split_ws s ! i)) in
            if 0 < i \<and> Suc i < length (split_ws s) \<and> w \<in> set dont_capitalize then lower w else w)) \<and>
      hd (title_case_words s ! i) =
        (if 0 < i \<and> Suc i < length (split_ws s) \<and> title (split_ws s ! i) \<in> set dont_capitalize
         then to_lower (to_title (hd (split_ws s ! i))) else to_title (hd (split_ws s ! i))) \<and>
      (\<forall>j. Suc j < length (title_case_words s ! i) \<and> title_case_words s ! i ! j = apostrophe \<longrightarrow>
         \<not> is_upper (title_case_words s ! i ! Suc j))"
    by (intro allI impI per_word)
  have ex1: "title_case ''the end of the road'' = ''The End of The Road''"
    by code_simp
  have ex2: "title_case (''Wasn'' @ [apostrophe] @ ''T'') = ''Wasn'' @ [apostrophe] @ ''t''"
    by code_simp
  have a: "title_case s = join '' '' (title_case_words s)"
    by (simp add: title_case_def)
  show ?thesis
    by (intro conjI a length_title_case_words all ex1 ex2)
qed

text \<open>The claim as stated fails on its own example: the interior \<open>the\<close> is
  capitalised, because \<open>The\<close> is not in the stopword list.\<close>

theorem title_case_the_counterexample:
  "title_case ''the end of the road'' = ''The End of The Road'' \<and>
   title_case ''the end of the road'' \<noteq> ''The End of the Road'' \<and>
   ''The'' \<notin> set dont_capitalize"
  by code_simp

text \<open>Letters and white space above U+007F: a word that begins with U+00E9, and
  the no-break space.\<close>

lemma latin1_examples:
  "title [CHR 0xE9, CHR ''c'', CHR ''o'', CHR ''l'', CHR ''e''] = [CHR 0xC9, CHR ''c'', CHR ''o'', CHR ''l'', CHR ''e'']"
  "strip [CHR 0xA0, CHR 0x85] = []"
  "split_ws [CHR ''a'', CHR 0xA0, CHR ''b''] = [''a'', ''b'']"
  by code_simp+

text \<open>Three words, the middle one a stopword and the last one with an apostrophe.\<close>

theorem title_case_words_spec_witness:
  "title_exact (''WAR and o'' @ [apostrophe] @ ''NEIL'') \<and>
   split_ws (''WAR and o'' @ [apostrophe] @ ''NEIL'') = [''WAR'', ''and'', ''o'' @ [apostrophe] @ ''NEIL''] \<and>
   count_list ''and'' apostrophe \<le> 1 \<and> count_list (''o'' @ [apostrophe] @ ''NEIL'') apostrophe \<le> 1 \<and>
   title_case_words (''WAR and o'' @ [apostrophe] @ ''NEIL'') ! 1 = ''and'' \<and>
   title_case_words (''WAR and o'' @ [apostrophe] @ ''NEIL'') ! 2 = ''O'' @ [apostrophe] @ ''neil'' \<and>
   hd (title_case_words (''WAR and o'' @ [apostrophe] @ ''NEIL'') ! 2) = CHR ''O'' \<and>
   \<not> is_upper (title_case_words (''WAR and o'' @ [apostrophe] @ ''NEIL'') ! 2 ! 2)"
proof -
  let ?s = "''WAR and o'' @ [apostrophe] @ ''NEIL''"
  have t: "title_exact ?s" by code_simp
  have w: "split_ws ?s = [''WAR'', ''and'', ''o'' @ [apostrophe] @ ''NEIL'']"
    by code_simp
  have k1: "count_list ''and'' apostrophe \<le> 1"
    and k2: "count_list (''o'' @ [apostrophe] @ ''NEIL'') apostrophe \<le> 1"
    by code_simp+
  have f1: "lower_after_apostrophe (title ''and'') = ''And''"
    and f2: "lower_after_apostrophe (title (''o'' @ [apostrophe] @ ''NEIL'')) = ''O'' @ [apostrophe] @ ''neil''"
    and f3: "lower ''And'' = ''and''"
    and f4: "''And'' \<in> set dont_capitalize"
    and f5: "''O'' @ [apostrophe] @ ''neil'' \<notin> set dont_capitalize"
    and f6: "title (''o'' @ [apostrophe] @ ''NEIL'') \<notin> set dont_capitalize"
    and f7: "to_title (CHR ''o'') = CHR ''O''"
    by code_simp+
  note all = title_case_words_spec [OF t, THEN conjunct2, THEN conjunct2, THEN conjunct1, rule_format]
  have i1: "1 < length (split_ws ?s)" and i2: "2 < length (split_ws ?s)"
    unfolding w by simp_all
  have n1: "split_ws ?s ! 1 = ''and''" and n2: "split_ws ?s ! 2 = ''o'' @ [apostrophe] @ ''NEIL''"
    unfolding w by simp_all
  have l: "length (split_ws ?s) = 3" unfolding w by simp
  note p1 = all [OF i1, THEN conjunct1, unfolded n1, THEN mp, OF k1]
  note p2 = all [OF i2, THEN conjunct1, unfolded n2, THEN mp, OF k2]
  note q2 = all [OF i2, THEN conjunct2, THEN conjunct1, unfolded n2]
  note r2 = all [OF i2, THEN conjunct2, THEN conjunct2, rule_format, of 1]
  from p1 have a1: "title_case_words ?s ! 1 = ''and''"
    unfolding f1 Let_def l by (simp add: f3 f4)
  from p2 have a2: "title_case_words ?s ! 2 = ''O'' @ [apostrophe] @ ''neil''"
    unfolding f2 Let_def l by simp
  from q2 have b2: "hd (title_case_words ?s ! 2) = CHR ''O''"
    unfolding l by (simp add: f7 has_title_def)
  have c2: "\<not> is_upper (title_case_words ?s ! 2 ! 2)"
    unfolding a2 by (simp add: is_upper_def)
  show ?thesis by (intro conjI t w k1 k2 a1 a2 b2 c2)
qed

section \<open>When the constructor raises\<close>

lemma isl_and_then: "isl (and_then m f) \<longleftrightarrow> isl m \<or> isl (f (projr m))"
  by (cases m) (simp_all add: and_then_def)

lemma and_then_Inr: "and_then m f = Inr y \<longleftrightarrow> (\<exists>x. m = Inr x \<and> f x = Inr y)"
  by (cases m) (simp_all add: and_then_def)

lemma and_then_Inr_projr: "and_then m f = Inr y \<longleftrightarrow> \<not> isl m \<and> f (projr m) = Inr y"
  by (cases m) (simp_all add: and_then_def)

lemma isl_first_row: "isl (first_row metadata) \<longleftrightarrow> metadata = []"
  by (cases metadata) (simp_all add: first_row_def)

lemma projr_first_row: "metadata \<noteq> [] \<Longrightarrow> projr (first_row metadata) = hd metadata"
  by (cases metadata) (simp_all add: first_row_def)

lemma isl_getitem: "isl (getitem r k) \<longleftrightarrow> r k = None"
  by (cases "r k") (simp_all add: getitem_def)

lemma isl_disclaimer_loop: "isl (disclaimer_loop rs) \<longleftrightarrow> \<not> disclaimer_scan_ok rs"
proof (induction rs)
  case Nil
  then show ?case by simp
next
  case (Cons r rs)
  then show ?case
    by (cases "r ''disclaimer''") (simp_all add: and_then_def getitem_def)
qed

lemma isl_get_disclaimer:
  "isl (get_disclaimer metadata) \<longleftrightarrow>
     metadata = [] \<or> (hd metadata ''disclaimer'' \<noteq> None \<and> \<not> disclaimer_scan_ok metadata)"
  by (cases metadata)
     (simp_all add: get_disclaimer_def first_row_def and_then_def isl_disclaimer_loop
        del: disclaimer_loop.simps disclaimer_scan_ok.simps)

lemma isl_object_count_loop:
  "isl (object_count_loop objs n) \<longleftrightarrow> \<not> list_all (\<lambda>r. r ''ark'' \<noteq> None) objs"
proof (induction objs arbitrary: n)
  case Nil
  then show ?case by simp
next
  case (Cons r rs)
  then show ?case
    by (cases "r ''ark''") (simp_all add: and_then_def getitem_def)
qed

lemma isl_get_object_count:
  "isl (get_object_count metadata) \<longleftrightarrow> \<not> list_all (\<lambda>r. r ''ark'' \<noteq> None) (drop 1 metadata)"
  by (simp add: get_object_count_def isl_object_count_loop)

lemma isl_get_years:
  "isl (get_years metadata) \<longleftrightarrow> \<not> list_all (\<lambda>r. r ''date_original'' \<noteq> None) metadata"
  by (simp add: get_years_def years_loop_eq and_then_def)

lemma isl_get_title:
  "isl (get_title metadata) \<longleftrightarrow> metadata = [] \<or> hd metadata ''title'' = None"
  by (cases metadata; cases "hd metadata ''title''")
     (simp_all add: get_title_def first_row_def and_then_def getitem_def Let_def)

lemma isl_get_collection_descriptions:
  "hd metadata ''title'' \<noteq> None \<Longrightarrow>
   isl (get_collection_descriptions metadata) \<longleftrightarrow> metadata = [] \<or> hd metadata ''description'' = None"
  by (cases metadata; cases "hd metadata ''description''")
     (auto simp: get_collection_descriptions_def first_row_def and_then_def getitem_def
        split: prod.splits)

lemma isl_generate_008_field:
  "isl (generate_008_field today metadata fs) \<longleftrightarrow> get_languages metadata = []"
  by (cases "get_languages metadata") (simp_all add: generate_008_field_def Let_def)

lemma set_get_terms_sep:
  "set (get_terms_sep metadata args sep) = set (scanned_terms metadata args sep)"
proof -
  have "counter_inv (scanned_terms metadata args sep) (get_terms_counter metadata args sep)"
    unfolding get_terms_counter_scan by (rule counter_inv_scan)
  then show ?thesis
    unfolding get_terms_sep_def keys_sorted_items_desc by (simp add: counter_inv_def)
qed

lemma cell_terms_empty: "cell_terms sep t = [] \<longleftrightarrow> t = []"
  by (simp add: cell_terms_def split_char_nonempty)

lemma get_languages_empty:
  "get_languages metadata = [] \<longleftrightarrow> \<not> list_ex (\<lambda>r. get_default r ''language'' [] \<noteq> []) metadata"
proof -
  have "get_languages metadata = [] \<longleftrightarrow> set (get_terms_sep metadata [''language''] (CHR '';'')) = {}"
    by (simp add: get_languages_def get_terms_def)
  also have "\<dots> \<longleftrightarrow> scanned_terms metadata [''language''] (CHR '';'') = []"
    by (simp add: set_get_terms_sep)
  also have "\<dots> \<longleftrightarrow> \<not> list_ex (\<lambda>r. get_default r ''language'' [] \<noteq> []) metadata"
    by (simp add: scanned_terms_def cell_terms_empty list_ex_iff)
  finally show ?thesis .
qed

lemma isl_islandora_record_init:
  "isl (islandora_record_init area_codes today metadata mx) \<longleftrightarrow>
     isl (get_disclaimer metadata) \<or> isl (first_row metadata) \<or>
     isl (getitem (projr (first_row metadata)) ''digital_collection'') \<or>
     isl (get_years metadata) \<or> isl (get_collection_descriptions metadata) \<or>
     isl (generate_008_field today metadata []) \<or> isl (get_title metadata) \<or>
     isl (get_object_count metadata) \<or>
     isl (getitem (projr (first_row metadata)) ''title'') \<or>
     isl (getitem (projr (first_row metadata)) ''ark'')"
  by (simp add: islandora_record_init_def isl_and_then Let_def split_beta)

text \<open>
  Claim C1, as amended. The constructor returns a record exactly when the row
  sequence is not empty, the first row has the columns \<open>title\<close>, \<open>digital_collection\<close>,
  \<open>ark\<close> and \<open>description\<close>, every row has the column \<open>date_original\<close>, every later
  row has the column \<open>ark\<close>, the scan for the disclaimer meets no row without the
  column (when the first row has it), and some row has a language cell that is not
  empty. On every other input it raises, and there is no record. Nothing else makes
  it fail: the columns of subjects, genres, creators and provenance may be missing,
  cells may be empty and the other aggregations may be empty.
\<close>

theorem islandora_record_init_succeeds_iff:
  "(\<exists>r. islandora_record_init area_codes today metadata mx = Inr r) \<longleftrightarrow> build_ok metadata"
proof -
  have "(\<exists>r. islandora_record_init area_codes today metadata mx = Inr r) \<longleftrightarrow>
      \<not> isl (islandora_record_init area_codes today metadata mx)"
    by (cases "islandora_record_init area_codes today metadata mx") simp_all
  also have "\<dots> \<longleftrightarrow> build_ok metadata"
  proof (cases metadata)
    case Nil
    then show ?thesis by (simp add: isl_islandora_record_init isl_first_row build_ok_def)
  next
    case (Cons r0 rest)
    show ?thesis
    proof (cases "r0 ''title'' = None")
      case True
      with Cons show ?thesis
        by (simp add: isl_islandora_record_init isl_get_title build_ok_def)
    next
      case False
      with Cons have "hd metadata ''title'' \<noteq> None" by simp
      note d = isl_get_collection_descriptions [OF this]
      from Cons False show ?thesis
        unfolding isl_islandora_record_init d
        by (auto simp: isl_get_disclaimer isl_first_row projr_first_row isl_getitem isl_get_years
            isl_generate_008_field isl_get_title isl_get_object_count get_languages_empty build_ok_def)
    qed
  qed
  finally show ?thesis .
qed




text \<open>The claim as stated fails: a row with the four collection-level columns and
  nothing else raises \<open>KeyError\<close> for the date, and with an empty date it raises
  \<open>IndexError\<close> for want of a language.\<close>

theorem optional_columns_counterexample:
  "islandora_record_init Map.empty ''261106'' [collection_row] 5 = Inl (KeyError ''date_original'') \<and>
   islandora_record_init Map.empty ''261106'' [collection_row(''date_original'' \<mapsto> [])] 5 = Inl IndexError \<and>
   collection_row ''title'' \<noteq> None \<and> collection_row ''digital_collection'' \<noteq> None \<and>
   collection_row ''ark'' \<noteq> None \<and> collection_row ''description'' \<noteq> None"
  by code_simp

theorem islandora_record_init_succeeds_iff_witness:
  "build_ok [sample_row, sample_row] \<and>
   (\<exists>r. islandora_record_init Map.empty ''261106'' [sample_row, sample_row] 5 = Inr r) \<and>
   \<not> build_ok [collection_row] \<and>
   \<not> (\<exists>r. islandora_record_init Map.empty ''261106'' [collection_row] 5 = Inr r)"
proof -
  have a: "build_ok [sample_row, sample_row]" and b: "\<not> build_ok [collection_row]"
    by code_simp+
  from a b
    islandora_record_init_succeeds_iff [of Map.empty "''261106''" "[sample_row, sample_row]" 5]
    islandora_record_init_succeeds_iff [of Map.empty "''261106''" "[collection_row]" 5]
  show ?thesis by blast
qed

section \<open>The language field and field 008\<close>

lemma prefix_add: "prefix a fs \<Longrightarrow> prefix a (add fs t i s)"
  by (simp add: add_def prefix_prefix)

lemma prefix_foldl:
  assumes "\<And>fs x. prefix fs (f fs x)"
  shows "prefix a fs \<Longrightarrow> prefix a (foldl f fs xs)"
proof (induction xs arbitrary: fs)
  case Nil
  then show ?case by simp
next
  case (Cons x xs)
  from Cons.prems assms [of fs x] have "prefix a (f fs x)" by (rule prefix_order.trans)
  then show ?case using Cons.IH by simp
qed

lemma prefix_add_terms: "prefix a fs \<Longrightarrow> prefix a (add_terms fs t i terms extra)"
  unfolding add_terms_def
  by (rule prefix_foldl) (simp_all add: add_def)

lemma prefix_add_terms_multiple_vocabularies:
  "prefix a fs \<Longrightarrow> prefix a (add_terms_multiple_vocabularies fs t tus fi fb)"
  unfolding add_terms_multiple_vocabularies_def
  by (rule prefix_foldl) (simp_all add: add_term_vocabulary_entry)

lemma prefix_add_geographic_subjects: "prefix a fs \<Longrightarrow> prefix a (add_geographic_subjects mx avian md fs)"
  unfolding add_geographic_subjects_def by (rule prefix_add_terms)

lemma prefix_add_corporate_name_subjects: "prefix a fs \<Longrightarrow> prefix a (add_corporate_name_subjects mx md fs)"
  unfolding add_corporate_name_subjects_def by (rule prefix_add_terms_multiple_vocabularies)

lemma prefix_add_personal_name_subjects: "prefix a fs \<Longrightarrow> prefix a (add_personal_name_subjects mx md fs)"
  unfolding add_personal_name_subjects_def by (rule prefix_add_terms_multiple_vocabularies)

lemma prefix_add_topic_subjects: "prefix a fs \<Longrightarrow> prefix a (add_topic_subjects mx md fs)"
  unfolding add_topic_subjects_def by (rule prefix_add_terms)

lemma prefix_add_genre_forms: "prefix a fs \<Longrightarrow> prefix a (add_genre_forms md fs)"
  unfolding add_genre_forms_def by (rule prefix_add_terms)

lemma prefix_add_corperate_creators_contributors:
  "prefix a fs \<Longrightarrow> prefix a (add_corperate_creators_contributors mx md fs)"
  unfolding add_corperate_creators_contributors_def by (rule prefix_add_terms)

lemma prefix_add_personal_creators_contributors:
  "prefix a fs \<Longrightarrow> prefix a (add_personal_creators_contributors mx md fs)"
  unfolding add_personal_creators_contributors_def by (rule prefix_add_terms)

lemma prefix_add_finding_aid_links: "prefix a fs \<Longrightarrow> prefix a (add_finding_aid_links mx md fs)"
  unfolding add_finding_aid_links_def
  by (rule prefix_foldl) (simp_all add: add_def split_beta)

lemma prefix_original_version_notes: "prefix a fs \<Longrightarrow> prefix a (original_version_notes pc pn fs)"
  unfolding original_version_notes_def
  by (rule prefix_foldl) (simp_all add: add_def)

lemma prefix_add_geographic_area_codes:
  "prefix a fs \<Longrightarrow> prefix a (add_geographic_area_codes ac terms fs)"
  by (simp add: add_geographic_area_codes_def Let_def prefix_add split: prod.splits)

lemma prefix_add_preferred_citation:
  "prefix a fs \<Longrightarrow> prefix a (add_preferred_citation mx dc md fs)"
  by (simp add: add_preferred_citation_def Let_def prefix_add)

lemma prefix_if: "prefix a x \<Longrightarrow> prefix a y \<Longrightarrow> prefix a (if c then x else y)"
  by simp

lemmas prefix_steps =
  prefix_add prefix_add_geographic_subjects prefix_add_corporate_name_subjects
  prefix_add_personal_name_subjects prefix_add_topic_subjects prefix_add_genre_forms
  prefix_add_corperate_creators_contributors prefix_add_personal_creators_contributors
  prefix_add_finding_aid_links prefix_original_version_notes prefix_add_geographic_area_codes
  prefix_add_preferred_citation prefix_if

lemma islandora_record_init_fields:
  assumes "islandora_record_init area_codes today metadata mx = Inr r"
  shows "\<exists>data fs1. generate_008_field today metadata [] = Inr (data, fs1) \<and>
           prefix (fs1 @ [ControlField ''008'' data]) (record_fields r)"
proof -
  let ?g = "generate_008_field today metadata []"
  from assms have "\<not> isl ?g \<and>
      prefix (snd (projr ?g) @ [ControlField ''008'' (fst (projr ?g))]) (record_fields r)"
    unfolding islandora_record_init_def
    apply (simp add: and_then_Inr_projr Let_def split_beta)
    apply (elim conjE)
    apply (drule sym [of _ r])
    apply (simp only: marc_record.simps)
    apply (intro prefix_steps prefix_order.refl)
    done
  then show ?thesis by (cases ?g) auto
qed

lemma convert_repeat_subfields:
  "convert_legacy_subfields (repeat_subfields (map Str lang) c) = map (\<lambda>l. (c, Str l)) lang"
  by (induction lang) (simp_all add: repeat_subfields_def)

text \<open>
  Claim C10. When the constructor returns a record and the aggregated languages are
  two or more, the record begins with field 041, one subfield \<open>a\<close> for each language,
  and field 008 is the second field: 041 is added while the data of 008 are computed.
\<close>

theorem language_field_precedes_008:
  assumes "islandora_record_init area_codes today metadata mx = Inr r"
    and "1 < length (get_languages metadata)"
  shows "\<exists>rest. record_fields r =
      DataField ''041'' (blank, blank) (map (\<lambda>l. (Str ''a'', Str l)) (get_languages metadata)) #
      ControlField ''008''
        (today @ ''         iau     o           '' @ hd (get_languages metadata) @ '' d'') #
      rest"
proof -
  from islandora_record_init_fields [OF assms(1)] obtain data fs1 where
    g: "generate_008_field today metadata [] = Inr (data, fs1)"
    and p: "prefix (fs1 @ [ControlField ''008'' data]) (record_fields r)"
    by blast
  from assms(2) obtain l ls where l: "get_languages metadata = l # ls"
    by (cases "get_languages metadata") auto
  from g assms(2) have
    "fs1 = [DataField ''041'' (blank, blank) (map (\<lambda>l. (Str ''a'', Str l)) (get_languages metadata))]"
    and "data = today @ ''         iau     o           '' @ hd (get_languages metadata) @ '' d''"
    unfolding generate_008_field_def Let_def
    by (simp_all add: l add_041_field_def add_def convert_repeat_subfields [of "l # ls", simplified])
  with p show ?thesis by (auto simp: prefix_def)
qed

text \<open>Two rows with the languages \<open>eng;fre\<close>.\<close>

theorem language_field_precedes_008_witness:
  "\<exists>r rest. islandora_record_init Map.empty ''261106'' [sample_row, sample_row] 5 = Inr r \<and>
     1 < length (get_languages [sample_row, sample_row]) \<and>
     record_fields r =
       DataField ''041'' (blank, blank) [(Str ''a'', Str ''eng''), (Str ''a'', Str ''fre'')] #
       ControlField ''008'' ''261106         iau     o           eng d'' # rest"
proof -
  have "\<not> isl (islandora_record_init Map.empty ''261106'' [sample_row, sample_row] 5)"
    by code_simp
  then obtain r where r: "islandora_record_init Map.empty ''261106'' [sample_row, sample_row] 5 = Inr r"
    by (cases "islandora_record_init Map.empty ''261106'' [sample_row, sample_row] 5") auto
  have l: "get_languages [sample_row, sample_row] = [''eng'', ''fre'']"
    by code_simp
  then have n: "1 < length (get_languages [sample_row, sample_row])" by simp
  from language_field_precedes_008 [OF r n] r n show ?thesis
    unfolding l by auto
qed

section \<open>The maximum number of term fields\<close>

text \<open>
  Claim C5, on a collection of one row with six genres, six topics and six physical
  collections, built with the default maximum of 5: the record has five topic fields
  650, but six genre fields 655 and six original-version fields 534.
  \<^verbatim>\<open>add_genre_forms\<close> and the loop for field 534 do not truncate, where
  \<^verbatim>\<open>add_topic_subjects\<close> and the other adders take \<^verbatim>\<open>[: self.max]\<close>.
\<close>

theorem genre_forms_not_truncated:
  "map_sum id (\<lambda>r. (length (filter (\<lambda>f. tag f = ''650'') (record_fields r)),
                     length (filter (\<lambda>f. tag f = ''655'') (record_fields r)),
                     length (filter (\<lambda>f. tag f = ''534'') (record_fields r))))
     (IslandoraRecord Map.empty ''261106'' [six_terms_row] []) = Inr (5, 6, 6)"
  by code_simp

text \<open>The adders that slice add at most \<open>max\<close> fields, for a \<open>max\<close> that is not
  negative.\<close>

lemma length_add_terms: "length (add_terms fs t i terms extra) \<le> length fs + length terms"
  unfolding add_terms_def
proof (induction terms arbitrary: fs)
  case Nil
  then show ?case by simp
next
  case (Cons x xs)
  show ?case
  proof (cases "x = []")
    case True
    with Cons [of fs] show ?thesis by simp
  next
    case False
    with Cons [of "add fs t i ([Str ''a'', Str x] @ extra)"] show ?thesis
      by (simp add: add_def)
  qed
qed

lemma length_slice_to: "0 \<le> n \<Longrightarrow> length (slice_to xs n) \<le> nat n"
  by (simp add: slice_to_def)

lemma add_topic_subjects_at_most_max:
  assumes "0 \<le> mx"
  shows "length (add_topic_subjects mx metadata fs) \<le> length fs + nat mx"
  unfolding add_topic_subjects_def
  using length_add_terms [of fs "''650''" "(blank, Str ''7'')" "slice_to (get_topic_subjects metadata) mx"
      "[Str ''2'', Str ''fast'']"]
    length_slice_to [OF assms, of "get_topic_subjects metadata"]
  by linarith

section \<open>The avian variant\<close>

text \<open>
  Claim C6, on any rows with the avian variant selected: \<^verbatim>\<open>main\<close> calls
  \<^verbatim>\<open>IslandoraRecord(rows, avian=True)\<close>, the constructor has no such parameter, and
  the call raises \<open>TypeError\<close> before any column is read.
\<close>

theorem avian_keyword_rejected:
  "main_record area_codes today metadata True = Inl TypeError"
  by (simp add: main_record_def IslandoraRecord_def)

text \<open>The getter itself reads the geo-names column when \<open>avian\<close> is set, but the
  constructor always leaves it unset.\<close>

lemma get_geographic_terms_avian:
  "get_geographic_terms True metadata = get_terms metadata [''geographic_subject_geonames'']"
  "get_geographic_terms False metadata =
     get_terms metadata [''geographic_subject_fast'', ''geographic_subject_local'']"
  by (simp_all add: get_geographic_terms_def)

section \<open>Rows without the requested column\<close>

text \<open>
  Claim C8, on a row without the column \<open>personal_name_subject\<close>: the paired
  aggregator counts the pair of two blanks for it, because its default cell is one
  blank and passes the test for the empty string; with the cell present and empty it
  counts nothing, and so does the plain aggregator on the row without the column.
\<close>

theorem paired_missing_column_counted:
  "get_terms_and_uris [collection_row] [''personal_name_subject''] = [('' '', '' '')] \<and>
   get_terms_and_uris [collection_row(''personal_name_subject'' \<mapsto> [])] [''personal_name_subject''] = [] \<and>
   get_terms [collection_row] [''personal_name_subject''] = []"
  by code_simp

text \<open>In the plain aggregator a row without the column, a row with an empty cell and
  no row at all are the same, and every piece of a cell is counted.\<close>

lemma get_terms_missing_column:
  "r column = None \<Longrightarrow> get_terms_row sep column tc r = tc"
  "r column = Some [] \<Longrightarrow> get_terms_row sep column tc r = tc"
  "r column = Some t \<Longrightarrow> t \<noteq> [] \<Longrightarrow>
     get_terms_row sep column tc r = foldl update_term_counting_dict tc (split_char sep t)"
  by (simp_all add: get_terms_row_scan get_default_def cell_terms_def)

end
